theory Spec2Isabelle
  imports Main "HOL-Library.Sublist" "HOL-Library.Multiset" "HOL-Library.AList"
    "HOL-Library.Char_ord" "HOL-Library.List_Lexorder"
begin

section \<open>JavaScript primitives the crawler relies on\<close>

text \<open>
  Strings are byte strings, and white space (\<open>\s\<close>, \<open>trim\<close>, \<open>parseInt\<close>) is the ASCII
  white space. Numbers are JavaScript doubles in the source; every number of the crawler
  is a chapter number, a page number, a counter or a delay, and the model takes them as
  \<open>nat\<close> or \<open>int\<close>, which is exact below \<open>2 ^ 53\<close>.
\<close>

definition is_digit :: "char \<Rightarrow> bool" where
  "is_digit c = (c \<in> set ''0123456789'')"

definition is_space :: "char \<Rightarrow> bool" where
  "is_space c = (c \<in> set [CHR '' '', CHR 0x09, CHR 0x0A, CHR 0x0B, CHR 0x0C, CHR 0x0D])"

definition digit_val :: "char \<Rightarrow> nat" where
  "digit_val c = of_char c - 48"

definition digits_val :: "string \<Rightarrow> nat" where
  "digits_val ds = foldl (\<lambda>a c. 10 * a + digit_val c) 0 ds"

text \<open>\<open>parseInt(s, 10)\<close>: leading white space, an optional sign, the longest run of
  digits; \<open>None\<close> is \<open>NaN\<close>.\<close>

definition parseInt :: "string \<Rightarrow> int option" where
  "parseInt s =
     (let t = dropWhile is_space s;
          neg = (t \<noteq> [] \<and> hd t = CHR ''-'');
          r = (if t \<noteq> [] \<and> (hd t = CHR ''-'' \<or> hd t = CHR ''+'') then tl t else t);
          ds = takeWhile is_digit r
      in if ds = [] then None
         else Some (if neg then - int (digits_val ds) else int (digits_val ds)))"

text \<open>\<open>Number.prototype.toString()\<close> on a non-negative integer, and on an integer.\<close>

function show_nat :: "nat \<Rightarrow> string" where
  "show_nat n =
     (if n < 10 then [''0123456789'' ! n]
      else show_nat (n div 10) @ [''0123456789'' ! (n mod 10)])"
  by pat_completeness auto
termination
  by (relation "measure id") auto

declare show_nat.simps [simp del]

definition show_int :: "int \<Rightarrow> string" where
  "show_int i = (if i < 0 then CHR ''-'' # show_nat (nat (- i)) else show_nat (nat i))"

text \<open>\<open>s.padStart(n, c)\<close> with a one-character filler.\<close>

definition padStart :: "nat \<Rightarrow> char \<Rightarrow> string \<Rightarrow> string" where
  "padStart n c s = replicate (n - length s) c @ s"

text \<open>\<open>s.match(/<word>(\d+)/)\<close>: the first position where \<open>word\<close> is followed by at
  least one digit; the captured group is the longest run of digits there.\<close>

fun match_digits :: "string \<Rightarrow> string \<Rightarrow> string option" where
  "match_digits word [] = None"
| "match_digits word (c # cs) =
     (if prefix word (c # cs) \<and> takeWhile is_digit (drop (length word) (c # cs)) \<noteq> []
      then Some (takeWhile is_digit (drop (length word) (c # cs)))
      else match_digits word cs)"

text \<open>\<open>s.replace(p, r)\<close> with a string pattern: the first occurrence only.\<close>

fun replace_first :: "string \<Rightarrow> string \<Rightarrow> string \<Rightarrow> string" where
  "replace_first p r [] = (if p = [] then r else [])"
| "replace_first p r (c # cs) =
     (if prefix p (c # cs) then r @ drop (length p) (c # cs)
      else c # replace_first p r cs)"

text \<open>\<open>s.split(sep)\<close> with a one-character separator.\<close>

fun split_on :: "char \<Rightarrow> string \<Rightarrow> string list" where
  "split_on sep [] = [[]]"
| "split_on sep (c # cs) =
     (case split_on sep cs of
        [] \<Rightarrow> [[c]]
      | p # ps \<Rightarrow> (if c = sep then [] # p # ps else (c # p) # ps))"

text \<open>
  \<open>Array.prototype.sort(cmp)\<close>. ECMAScript fixes the result only for a consistent
  comparator: the stable sorted permutation. \<open>js_sort\<close> is a stable insertion sort, which
  computes that permutation whenever \<open>cmp\<close> is consistent on the elements.
\<close>

fun insert_by :: "('a \<Rightarrow> 'a \<Rightarrow> int) \<Rightarrow> 'a \<Rightarrow> 'a list \<Rightarrow> 'a list" where
  "insert_by cmp x [] = [x]"
| "insert_by cmp x (y # ys) =
     (if cmp x y \<le> 0 then x # y # ys else y # insert_by cmp x ys)"

definition js_sort :: "('a \<Rightarrow> 'a \<Rightarrow> int) \<Rightarrow> 'a list \<Rightarrow> 'a list" where
  "js_sort cmp xs = foldr (insert_by cmp) xs []"

section \<open>Crawler.js: data\<close>

text \<open>A chapter reference as \<open>getChaptersFromPage\<close> builds it; \<open>None\<close> is \<open>null\<close>.\<close>

record chapter_ref =
  ref_number :: "nat option"
  ref_title :: string
  ref_url :: string
  ref_order :: nat

text \<open>
  A chapter object: \<open>getChapterContent\<close> returns \<open>{number, title, url, content: {text,
  html}}\<close>. It sets no \<open>order\<close> property; a chapter read back from disk may carry one, so
  the field is optional (\<open>None\<close> is \<open>undefined\<close>).
\<close>

record chap =
  ch_number :: "nat option"
  ch_title :: string
  ch_url :: string
  ch_body_text :: string
  ch_body_html :: string
  ch_order :: "nat option"

text \<open>An entry of the manifest: the chapter without its \<open>content\<close>.\<close>

record chapter_meta =
  m_number :: "nat option"
  m_title :: string
  m_url :: string
  m_order :: "nat option"

datatype error = Error string | TypeError string

fun message :: "error \<Rightarrow> string" where
  "message (Error m) = m"
| "message (TypeError m) = m"

text \<open>
  A fetched document, given by the results of the selector queries that the crawler makes on
  \<open>cheerio.load(html)\<close> (the extraction contract); a response body is taken as parsed. The
  fields are, in order: \<open>$('h1').first().text().trim()\<close>, \<open>$('.title-story').text().trim()\<close>,
  \<open>$('#total-page').val()\<close>, the anchors \<open>$('#list-chapter ul.list-chapter li a')\<close> with
  their \<open>href\<close> and \<open>title\<close> attributes and trimmed text, the three candidates for the chapter
  title, and \<open>$('#chapter-c').html()\<close> and \<open>$('.chapter-c').html()\<close>.
\<close>

record anchor =
  a_href :: "string option"
  a_title :: "string option"
  a_text :: string

record page =
  h1_first :: string
  title_story :: string
  total_page_val :: "string option"
  list_chapter_links :: "anchor list"
  h2_chapter_title :: string
  cls_chapter_title :: string
  h2_first :: string
  id_chapter_c :: "string option"
  cls_chapter_c :: "string option"

text \<open>What one HTTP attempt comes to: \<open>fetch\<close> (or reading the body) rejects with a
  message, the timeout promise wins the race, or a response with a status arrives.\<close>

datatype response = Rejected string | TimedOut | Response nat page

record story_info =
  si_title :: string
  si_slug :: string
  si_url :: string
  si_totalPages :: "int option"

record error_info =
  ei_chapter :: chapter_ref
  ei_error :: string
  ei_timestamp :: string

text \<open>A file of a \<open>chapters\<close> directory: a chapter written by \<open>writeJSON\<close>, or any other
  content (\<open>readJSON\<close> throws on it unless it is a chapter).\<close>

datatype cfile = ChapterJson chap | PlainText string

datatype event =
    Request string
  | Sleep int
  | WriteInfo string story_info
  | WriteChapter string string
  | WriteManifest string
  | AppendLog string string

text \<open>
  The world a run acts on. \<open>reqs\<close> and \<open>ios\<close> count the HTTP attempts and the mutating
  file-system calls made so far; \<open>trace\<close> lists the effects in the order they happened.
  All paths of a run lie under the one output directory, so a story directory is keyed by its
  name: \<open>chapter_store d\<close> is the listing of \<open>d/chapters\<close> (\<open>None\<close> when it does not exist),
  \<open>info_json d\<close>, \<open>story_json d\<close> and \<open>errors_log d\<close> are the three files of \<open>d\<close>.
\<close>

record world =
  reqs :: nat
  ios :: nat
  trace :: "event list"
  chapter_store :: "string \<Rightarrow> (string \<times> cfile) list option"
  info_json :: "string \<Rightarrow> story_info option"
  story_json :: "string \<Rightarrow> (story_info \<times> chapter_meta list) option"
  errors_log :: "string \<Rightarrow> string list"

text \<open>
  The environment of a run: the answer to the \<open>k\<close>-th HTTP attempt, whether the \<open>k\<close>-th
  mutating file-system call throws (and with which message), the clock, and cheerio's text
  and markup rendering of a cleaned content fragment.
\<close>

record env =
  net :: "nat \<Rightarrow> string \<Rightarrow> response"
  disk_err :: "nat \<Rightarrow> string option"
  clock :: "nat \<Rightarrow> string"
  render_text :: "string \<Rightarrow> string"
  render_html :: "string \<Rightarrow> string"

record crawler =
  delay_ms :: int
  retries :: nat
  timeout_ms :: int

definition baseUrl :: string where
  "baseUrl = ''https://truyenfull.vision''"

text \<open>The constructor: \<open>options.delay || 1000\<close>, \<open>options.retries || 3\<close>,
  \<open>options.timeout || 30000\<close> (\<open>None\<close> is \<open>NaN\<close> or \<open>undefined\<close>).\<close>

definition or_default :: "int option \<Rightarrow> int \<Rightarrow> int" where
  "or_default v d = (case v of None \<Rightarrow> d | Some n \<Rightarrow> if n = 0 then d else n)"

definition TruyenFullCrawler :: "int option \<Rightarrow> int option \<Rightarrow> int option \<Rightarrow> crawler" where
  "TruyenFullCrawler d r t =
     \<lparr>delay_ms = or_default d 1000, retries = nat (or_default r 3),
      timeout_ms = or_default t 30000\<rparr>"

section \<open>Crawler.js: fetching\<close>

text \<open>\<open>emit\<close> records an effect; \<open>delay ms\<close> is \<open>await delay(ms)\<close>, of which the model keeps
  the duration asked for.\<close>

definition emit :: "event \<Rightarrow> world \<Rightarrow> world" where
  "emit e w = w\<lparr>trace := trace w @ [e]\<rparr>"

definition delay :: "int \<Rightarrow> world \<Rightarrow> world" where
  "delay ms w = emit (Sleep ms) w"

definition attempt :: "response \<Rightarrow> string + page" where
  "attempt r =
     (case r of
        Rejected m \<Rightarrow> Inl m
      | TimedOut \<Rightarrow> Inl ''Request timeout''
      | Response status body \<Rightarrow>
          if 200 \<le> status \<and> status \<le> 299 then Inr body
          else Inl (''HTTP error! status: '' @ show_nat status))"

text \<open>
  \<open>fetchPage(url, retryCount)\<close>. Each call makes one HTTP attempt, whose outcome the
  environment gives; a failed attempt is followed by a wait of \<open>delay * (retryCount + 1)\<close> and
  a recursive call while \<open>retryCount < retries\<close>, and by a thrown error otherwise.
\<close>

function fetchPage :: "crawler \<Rightarrow> env \<Rightarrow> string \<Rightarrow> nat \<Rightarrow> world \<Rightarrow> (error + page) \<times> world" where
  "fetchPage c en u retryCount w =
     (let w1 = emit (Request u) (w\<lparr>reqs := reqs w + 1\<rparr>) in
      case attempt (net en (reqs w) u) of
        Inr html \<Rightarrow> (Inr html, w1)
      | Inl msg \<Rightarrow>
          if retryCount < retries c
          then fetchPage c en u (retryCount + 1) (delay (delay_ms c * (int retryCount + 1)) w1)
          else (Inl (Error (''Failed to fetch '' @ u @ '': '' @ msg)), w1))"
  by pat_completeness auto
termination
  by (relation "measure (\<lambda>(c, en, u, k, w). retries c - k)") auto

declare fetchPage.simps [simp del]

text \<open>\<open>a || b\<close> on strings: the empty string is falsy.\<close>

definition js_or :: "string \<Rightarrow> string \<Rightarrow> string" where
  "js_or a b = (if a = [] then b else a)"

definition getStoryInfo :: "crawler \<Rightarrow> env \<Rightarrow> string \<Rightarrow> world \<Rightarrow> (error + story_info) \<times> world" where
  "getStoryInfo c en storyUrl w =
     (case fetchPage c en storyUrl 0 w of
        (Inl e, w1) \<Rightarrow> (Inl (Error (''Failed to get story info: '' @ message e)), w1)
      | (Inr doc, w1) \<Rightarrow>
          (let storyTitle = js_or (h1_first doc) (js_or (title_story doc) ''Unknown Story'');
               totalPages = parseInt (js_or (case total_page_val doc of None \<Rightarrow> [] | Some v \<Rightarrow> v) ''1'');
               urlParts = filter (\<lambda>p. p \<noteq> []) (split_on CHR ''/'' (replace_first baseUrl [] storyUrl));
               storySlug = (case urlParts of [] \<Rightarrow> ''unknown'' | p # ps \<Rightarrow> p)
           in (Inr \<lparr>si_title = storyTitle, si_slug = storySlug, si_url = storyUrl,
                     si_totalPages = totalPages\<rparr>, w1)))"

definition strip_slash :: "string \<Rightarrow> string" where
  "strip_slash s = (if s \<noteq> [] \<and> last s = CHR ''/'' then butlast s else s)"

definition chapter_number_of :: "string \<Rightarrow> nat option" where
  "chapter_number_of u = map_option digits_val (match_digits ''chuong-'' u)"

definition link_ref :: "nat \<times> anchor \<Rightarrow> chapter_ref option" where
  "link_ref ia =
     (case a_href (snd ia) of
        None \<Rightarrow> None
      | Some href \<Rightarrow>
          if href = [] then None
          else Some \<lparr>ref_number = chapter_number_of href,
                     ref_title = js_or (case a_title (snd ia) of None \<Rightarrow> [] | Some t \<Rightarrow> t) (a_text (snd ia)),
                     ref_url = (if prefix ''http'' href then href else baseUrl @ href),
                     ref_order = fst ia\<rparr>)"

definition getChaptersFromPage ::
  "crawler \<Rightarrow> env \<Rightarrow> string \<Rightarrow> nat \<Rightarrow> world \<Rightarrow> (error + chapter_ref list) \<times> world" where
  "getChaptersFromPage c en storyUrl pageNumber w =
     (let u = (if pageNumber > 1
               then strip_slash storyUrl @ ''/trang-'' @ show_nat pageNumber @ ''/#list-chapter''
               else storyUrl @ ''#list-chapter'')
      in case fetchPage c en u 0 w of
           (Inl e, w1) \<Rightarrow>
             (Inl (Error (''Failed to get chapters from page '' @ show_nat pageNumber @ '': '' @ message e)), w1)
         | (Inr doc, w1) \<Rightarrow>
             (Inr (List.map_filter link_ref (List.enumerate 0 (list_chapter_links doc))), w1))"

text \<open>The comparator of \<open>allChapters.sort\<close> in \<open>getAllChapters\<close>.\<close>

definition compare_refs :: "chapter_ref \<Rightarrow> chapter_ref \<Rightarrow> int" where
  "compare_refs a b =
     (case (ref_number a, ref_number b) of
        (Some x, Some y) \<Rightarrow> int x - int y
      | _ \<Rightarrow> int (ref_order a) - int (ref_order b))"

text \<open>The loop over the listing pages; \<open>totalPages\<close> is \<open>storyInfo.totalPages\<close>.\<close>

fun fetch_pages ::
  "crawler \<Rightarrow> env \<Rightarrow> string \<Rightarrow> int \<Rightarrow> nat list \<Rightarrow> chapter_ref list \<Rightarrow> world
    \<Rightarrow> (error + chapter_ref list) \<times> world" where
  "fetch_pages c en storyUrl totalPages [] allChapters w = (Inr allChapters, w)"
| "fetch_pages c en storyUrl totalPages (p # ps) allChapters w =
     (case getChaptersFromPage c en storyUrl p w of
        (Inl e, w1) \<Rightarrow> (Inl e, w1)
      | (Inr chapters, w1) \<Rightarrow>
          fetch_pages c en storyUrl totalPages ps (allChapters @ chapters)
            (if int p < totalPages then delay (delay_ms c) w1 else w1))"

definition page_numbers :: "int option \<Rightarrow> nat list" where
  "page_numbers totalPages = (case totalPages of None \<Rightarrow> [] | Some n \<Rightarrow> [1 ..< Suc (nat n)])"

definition getAllChapters ::
  "crawler \<Rightarrow> env \<Rightarrow> string \<Rightarrow> world \<Rightarrow> (error + story_info \<times> chapter_ref list) \<times> world" where
  "getAllChapters c en storyUrl w =
     (case getStoryInfo c en storyUrl w of
        (Inl e, w1) \<Rightarrow> (Inl (Error (''Failed to get all chapters: '' @ message e)), w1)
      | (Inr storyInfo, w1) \<Rightarrow>
          (case fetch_pages c en storyUrl (case si_totalPages storyInfo of None \<Rightarrow> 0 | Some n \<Rightarrow> n)
                  (page_numbers (si_totalPages storyInfo)) [] w1 of
             (Inl e, w2) \<Rightarrow> (Inl (Error (''Failed to get all chapters: '' @ message e)), w2)
           | (Inr allChapters, w2) \<Rightarrow> (Inr (storyInfo, js_sort compare_refs allChapters), w2)))"

definition getChapterContent :: "crawler \<Rightarrow> env \<Rightarrow> string \<Rightarrow> world \<Rightarrow> (error + chap) \<times> world" where
  "getChapterContent c en chapterUrl w =
     (case fetchPage c en chapterUrl 0 w of
        (Inl e, w1) \<Rightarrow>
          (Inl (Error (''Failed to get chapter content from '' @ chapterUrl @ '': '' @ message e)), w1)
      | (Inr doc, w1) \<Rightarrow>
          (let chapterTitle = js_or (h2_chapter_title doc) (js_or (cls_chapter_title doc)
                                (js_or (h2_first doc) ''Unknown Chapter''));
               chapterContent = js_or (case id_chapter_c doc of None \<Rightarrow> [] | Some h \<Rightarrow> h)
                                  (js_or (case cls_chapter_c doc of None \<Rightarrow> [] | Some h \<Rightarrow> h) [])
           in (Inr \<lparr>ch_number = chapter_number_of chapterUrl, ch_title = chapterTitle,
                     ch_url = chapterUrl, ch_body_text = render_text en chapterContent,
                     ch_body_html = js_or (render_html en chapterContent) [],
                     ch_order = None\<rparr>, w1)))"

text \<open>The two filters of \<open>crawlStory\<close>. A start or end that is \<open>null\<close>, \<open>NaN\<close> or \<open>0\<close> is
  falsy and never compared.\<close>

definition truthy :: "int option \<Rightarrow> bool" where
  "truthy v = (case v of None \<Rightarrow> False | Some n \<Rightarrow> n \<noteq> 0)"

definition in_range :: "int option \<Rightarrow> int option \<Rightarrow> chapter_ref \<Rightarrow> bool" where
  "in_range startChapter endChapter r =
     (case ref_number r of
        None \<Rightarrow> True
      | Some n \<Rightarrow>
          if truthy startChapter \<and> int n < or_default startChapter 0 then False
          else if truthy endChapter \<and> int n > or_default endChapter 0 then False
          else True)"

definition range_filter :: "int option \<Rightarrow> int option \<Rightarrow> chapter_ref list \<Rightarrow> chapter_ref list" where
  "range_filter startChapter endChapter chapters =
     (if truthy startChapter \<or> truthy endChapter
      then filter (in_range startChapter endChapter) chapters else chapters)"

definition not_existing :: "nat list \<Rightarrow> chapter_ref \<Rightarrow> bool" where
  "not_existing existing r =
     (case ref_number r of None \<Rightarrow> True | Some n \<Rightarrow> n \<notin> set existing)"

text \<open>\<open>existingChapters\<close> is \<open>null\<close> (\<open>None\<close>) or a \<open>Set\<close> of numbers, held as a list without
  repetition.\<close>

definition resume_filter :: "nat list option \<Rightarrow> chapter_ref list \<Rightarrow> chapter_ref list" where
  "resume_filter existingChapters chaptersToCrawl =
     (case existingChapters of
        None \<Rightarrow> chaptersToCrawl
      | Some existing \<Rightarrow>
          if length existing > 0 then filter (not_existing existing) chaptersToCrawl
          else chaptersToCrawl)"

text \<open>
  The chapter loop of \<open>crawlStory\<close>, over the references still to crawl. The callbacks are
  closures over the caller's variables: they take and return the caller's state \<open>'s\<close>, and
  \<open>Some e\<close> is an exception thrown by the callback. \<open>onProgress\<close> only writes to the
  terminal and is left out.
\<close>

fun crawl_loop ::
  "crawler \<Rightarrow> env
    \<Rightarrow> (chap \<Rightarrow> 's \<Rightarrow> world \<Rightarrow> error option \<times> 's \<times> world)
    \<Rightarrow> (error_info \<Rightarrow> 's \<Rightarrow> world \<Rightarrow> error option \<times> 's \<times> world)
    \<Rightarrow> chapter_ref list \<Rightarrow> chap list \<Rightarrow> 's \<Rightarrow> world
    \<Rightarrow> (error + chap list) \<times> 's \<times> world" where
  "crawl_loop c en onChapterCrawled onError [] crawledChapters s w = (Inr crawledChapters, s, w)"
| "crawl_loop c en onChapterCrawled onError (chapterLink # rest) crawledChapters s w =
     (case getChapterContent c en (ref_url chapterLink) w of
        (Inl e, w1) \<Rightarrow>
          (case onError \<lparr>ei_chapter = chapterLink, ei_error = message e,
                         ei_timestamp = clock en (reqs w1)\<rparr> s w1 of
             (Some e', s2, w2) \<Rightarrow> (Inl e', s2, w2)
           | (None, s2, w2) \<Rightarrow> crawl_loop c en onChapterCrawled onError rest crawledChapters s2 w2)
      | (Inr chapterContent, w1) \<Rightarrow>
          (case onChapterCrawled chapterContent s w1 of
             (Some e, s2, w2) \<Rightarrow>
               (case onError \<lparr>ei_chapter = chapterLink, ei_error = message e,
                              ei_timestamp = clock en (reqs w2)\<rparr> s2 w2 of
                  (Some e', s3, w3) \<Rightarrow> (Inl e', s3, w3)
                | (None, s3, w3) \<Rightarrow>
                    crawl_loop c en onChapterCrawled onError rest
                      (crawledChapters @ [chapterContent]) s3 w3)
           | (None, s2, w2) \<Rightarrow>
               crawl_loop c en onChapterCrawled onError rest (crawledChapters @ [chapterContent]) s2
                 (if rest \<noteq> [] then delay (delay_ms c) w2 else w2)))"

definition crawlStory ::
  "crawler \<Rightarrow> env \<Rightarrow> string \<Rightarrow> int option \<Rightarrow> int option
    \<Rightarrow> (chap \<Rightarrow> 's \<Rightarrow> world \<Rightarrow> error option \<times> 's \<times> world)
    \<Rightarrow> (error_info \<Rightarrow> 's \<Rightarrow> world \<Rightarrow> error option \<times> 's \<times> world)
    \<Rightarrow> nat list option \<Rightarrow> 's \<Rightarrow> world
    \<Rightarrow> (error + story_info \<times> chap list) \<times> 's \<times> world" where
  "crawlStory c en storyUrl startChapter endChapter onChapterCrawled onError existingChapters s w =
     (case getAllChapters c en storyUrl w of
        (Inl e, w1) \<Rightarrow> (Inl (Error (''Failed to crawl story: '' @ message e)), s, w1)
      | (Inr (storyInfo, chapters), w1) \<Rightarrow>
          (case crawl_loop c en onChapterCrawled onError
                  (resume_filter existingChapters (range_filter startChapter endChapter chapters))
                  [] s w1 of
             (Inl e, s2, w2) \<Rightarrow> (Inl (Error (''Failed to crawl story: '' @ message e)), s2, w2)
           | (Inr crawledChapters, s2, w2) \<Rightarrow> (Inr (storyInfo, crawledChapters), s2, w2)))"

section \<open>utils.js and index.js\<close>

definition is_invalid_char :: "char \<Rightarrow> bool" where
  "is_invalid_char c =
     (c \<in> set [CHR ''<'', CHR ''>'', CHR '':'', CHR 0x22, CHR ''/'', CHR 0x5C, CHR ''|'',
               CHR ''?'', CHR ''*''])"

text \<open>\<open>s.replace(/P+/g, '_')\<close>: every maximal run of characters of the class becomes one
  underscore.\<close>

function squeeze :: "(char \<Rightarrow> bool) \<Rightarrow> string \<Rightarrow> string" where
  "squeeze P [] = []"
| "squeeze P (c # cs) =
     (if P c then CHR ''_'' # squeeze P (dropWhile P cs) else c # squeeze P cs)"
  by pat_completeness auto
termination
  by (relation "measure (\<lambda>(P, s). length s)") (auto simp: length_dropWhile_le less_Suc_eq_le)

definition trim :: "string \<Rightarrow> string" where
  "trim s = rev (dropWhile is_space (rev (dropWhile is_space s)))"

definition sanitizeFileName :: "string \<Rightarrow> string" where
  "sanitizeFileName fileName =
     trim (squeeze (\<lambda>c. c = CHR ''_'')
            (squeeze is_space (map (\<lambda>c. if is_invalid_char c then CHR ''_'' else c) fileName)))"

record options =
  outputDir :: string
  opt_delay :: "int option"
  startChapter :: "int option"
  endChapter :: "int option"
  format :: string
  resume :: bool
  force :: bool

text \<open>The variables of \<open>main\<close> that its callbacks update; \<open>saveErrors\<close> holds the messages
  that the \<open>catch\<close> of \<open>onChapterCrawled\<close> prints.\<close>

record main_state =
  savedCount :: nat
  skippedCount :: nat
  allCrawledChapters :: "chap list"
  saveErrors :: "string list"

text \<open>One mutating file-system call (\<open>ensureDir\<close>, \<open>writeJSON\<close>, \<open>writeFile\<close>,
  \<open>appendFile\<close>): the environment says whether it throws.\<close>

definition io :: "env \<Rightarrow> world \<Rightarrow> string option \<times> world" where
  "io en w = (disk_err en (ios w), w\<lparr>ios := ios w + 1\<rparr>)"

definition ext_of :: "string \<Rightarrow> string" where
  "ext_of fmt = (if fmt = ''txt'' then ''txt'' else ''json'')"

text \<open>The file name that \<open>saveChapter\<close> and \<open>chapterExists\<close> compute: \<open>chapter.number\<close> when
  it is truthy, else \<open>chapter.order\<close>, whose \<open>toString\<close> throws when the property is
  missing.\<close>

definition chapterFileName :: "chap \<Rightarrow> string \<Rightarrow> error + string" where
  "chapterFileName ch fmt =
     (case (case ch_number ch of None \<Rightarrow> None | Some n \<Rightarrow> if n = 0 then None else Some n) of
        Some n \<Rightarrow> Inr (''chapter-'' @ padStart 5 CHR ''0'' (show_nat n) @ ''.'' @ ext_of fmt)
      | None \<Rightarrow>
          (case ch_order ch of
             None \<Rightarrow> Inl (TypeError ''Cannot read properties of undefined (reading toString)'')
           | Some k \<Rightarrow> Inr (''chapter-'' @ padStart 5 CHR ''0'' (show_nat k) @ ''.'' @ ext_of fmt)))"

definition saveChapter ::
  "env \<Rightarrow> chap \<Rightarrow> string \<Rightarrow> string \<Rightarrow> world \<Rightarrow> (error + string \<times> string) \<times> world" where
  "saveChapter en ch storySlug fmt w =
     (let sanitizedSlug = sanitizeFileName storySlug in
      case io en w of
        (Some m, w1) \<Rightarrow> (Inl (Error m), w1)
      | (None, w1) \<Rightarrow>
          (let files = (case chapter_store w1 sanitizedSlug of None \<Rightarrow> [] | Some fs \<Rightarrow> fs);
               w2 = w1\<lparr>chapter_store := (chapter_store w1)(sanitizedSlug := Some files)\<rparr>
           in case chapterFileName ch fmt of
                Inl e \<Rightarrow> (Inl e, w2)
              | Inr fname \<Rightarrow>
                  (case io en w2 of
                     (Some m, w3) \<Rightarrow> (Inl (Error m), w3)
                   | (None, w3) \<Rightarrow>
                       (Inr (sanitizedSlug, fname),
                        emit (WriteChapter sanitizedSlug fname)
                          (w3\<lparr>chapter_store := (chapter_store w3)(sanitizedSlug :=
                             Some (AList.update fname
                                     (if fmt = ''json'' then ChapterJson ch
                                      else PlainText (ch_title ch @ [CHR 0x0A, CHR 0x0A] @ ch_body_text ch))
                                     files))\<rparr>)))))"

text \<open>The comparator of \<open>updateStoryJson\<close>; \<open>a.order || 0\<close> is \<open>0\<close> for a missing order.\<close>

definition order_or0 :: "chap \<Rightarrow> nat" where
  "order_or0 a = (case ch_order a of None \<Rightarrow> 0 | Some k \<Rightarrow> k)"

definition compare_chapters :: "chap \<Rightarrow> chap \<Rightarrow> int" where
  "compare_chapters a b =
     (case ch_number a of
        Some x \<Rightarrow> (case ch_number b of Some y \<Rightarrow> int x - int y | None \<Rightarrow> - 1)
      | None \<Rightarrow> (case ch_number b of Some y \<Rightarrow> 1 | None \<Rightarrow> int (order_or0 a) - int (order_or0 b)))"

definition metadata :: "chap \<Rightarrow> chapter_meta" where
  "metadata ch = \<lparr>m_number = ch_number ch, m_title = ch_title ch, m_url = ch_url ch,
                  m_order = ch_order ch\<rparr>"

definition manifest_of :: "chap list \<Rightarrow> chapter_meta list" where
  "manifest_of allChapters = map metadata (js_sort compare_chapters allChapters)"

definition updateStoryJson :: "env \<Rightarrow> story_info \<Rightarrow> chap list \<Rightarrow> world \<Rightarrow> error option \<times> world" where
  "updateStoryJson en storyInfo allChapters w =
     (let storySlug = sanitizeFileName (si_slug storyInfo) in
      case io en w of
        (Some m, w1) \<Rightarrow> (Some (Error m), w1)
      | (None, w1) \<Rightarrow>
          (None, emit (WriteManifest storySlug)
                   (w1\<lparr>story_json := (story_json w1)(storySlug :=
                          Some (storyInfo, manifest_of allChapters))\<rparr>)))"

text \<open>\<open>getExistingChapters\<close> reads the directory named by the slug as it is given.\<close>

definition getExistingChapters :: "string \<Rightarrow> string \<Rightarrow> world \<Rightarrow> nat list" where
  "getExistingChapters storySlug fmt w =
     (case chapter_store w storySlug of
        None \<Rightarrow> []
      | Some files \<Rightarrow>
          foldl (\<lambda>existingChapters file.
                   if suffix (''.'' @ ext_of fmt) file
                   then (case match_digits ''chapter-'' file of
                           Some ds \<Rightarrow> List.insert (digits_val ds) existingChapters
                         | None \<Rightarrow> existingChapters)
                   else existingChapters)
                [] (map fst files))"

definition saveStoryInfo :: "env \<Rightarrow> story_info \<Rightarrow> world \<Rightarrow> error option \<times> world" where
  "saveStoryInfo en storyInfo w =
     (let storySlug = sanitizeFileName (si_slug storyInfo) in
      case io en w of
        (Some m, w1) \<Rightarrow> (Some (Error m), w1)
      | (None, w1) \<Rightarrow>
          (case io en w1 of
             (Some m, w2) \<Rightarrow> (Some (Error m), w2)
           | (None, w2) \<Rightarrow>
               (None, emit (WriteInfo storySlug storyInfo)
                        (w2\<lparr>info_json := (info_json w2)(storySlug := Some storyInfo)\<rparr>))))"

text \<open>The chapters \<open>main\<close> loads into \<open>allCrawledChapters\<close> before the crawl.\<close>

definition loadExistingChapters :: "string \<Rightarrow> string \<Rightarrow> world \<Rightarrow> chap list" where
  "loadExistingChapters storySlug fmt w =
     (case chapter_store w storySlug of
        None \<Rightarrow> []
      | Some files \<Rightarrow>
          (let chapterFiles = sort (filter (suffix (''.'' @ ext_of fmt)) (map fst files))
           in if fmt = ''json''
              then List.map_filter
                     (\<lambda>file. case map_of files file of Some (ChapterJson ch) \<Rightarrow> Some ch | _ \<Rightarrow> None)
                     chapterFiles
              else []))"

definition onChapterCrawled ::
  "options \<Rightarrow> story_info \<Rightarrow> nat list \<Rightarrow> env \<Rightarrow> chap \<Rightarrow> main_state \<Rightarrow> world
    \<Rightarrow> error option \<times> main_state \<times> world" where
  "onChapterCrawled opts storyInfo existingChapters en ch s w =
     (if \<not> force opts \<and> (case ch_number ch of None \<Rightarrow> False | Some n \<Rightarrow> n \<in> set existingChapters)
      then
        (let s1 = s\<lparr>skippedCount := skippedCount s + 1\<rparr>;
             s2 = (if find (\<lambda>c. ch_number c = ch_number ch) (allCrawledChapters s1) = None
                   then s1\<lparr>allCrawledChapters := allCrawledChapters s1 @ [ch]\<rparr> else s1)
         in case updateStoryJson en storyInfo (allCrawledChapters s2) w of
              (r, w1) \<Rightarrow> (r, s2, w1))
      else
        (case saveChapter en ch (si_slug storyInfo) (format opts) w of
           (Inl e, w1) \<Rightarrow> (None, s\<lparr>saveErrors := saveErrors s @ [message e]\<rparr>, w1)
         | (Inr saved, w1) \<Rightarrow>
             (let s1 = s\<lparr>savedCount := savedCount s + 1,
                         allCrawledChapters := allCrawledChapters s @ [ch]\<rparr>
              in case updateStoryJson en storyInfo (allCrawledChapters s1) w1 of
                   (Some e, w2) \<Rightarrow> (None, s1\<lparr>saveErrors := saveErrors s1 @ [message e]\<rparr>, w2)
                 | (None, w2) \<Rightarrow> (None, s1, w2))))"

definition log_entry :: "error_info \<Rightarrow> string" where
  "log_entry errorInfo =
     ''['' @ ei_timestamp errorInfo @ ''] Chapter '' @
     (case ref_number (ei_chapter errorInfo) of
        None \<Rightarrow> ''N/A''
      | Some n \<Rightarrow> if n = 0 then ''N/A'' else show_nat n) @
     '' - '' @ ref_title (ei_chapter errorInfo) @ '': '' @ ei_error errorInfo @ [CHR 0x0A]"

definition onError ::
  "options \<Rightarrow> story_info \<Rightarrow> env \<Rightarrow> error_info \<Rightarrow> main_state \<Rightarrow> world
    \<Rightarrow> error option \<times> main_state \<times> world" where
  "onError opts storyInfo en errorInfo s w =
     (case io en w of
        (Some m, w1) \<Rightarrow> (Some (Error m), s, w1)
      | (None, w1) \<Rightarrow>
          (case io en w1 of
             (Some m, w2) \<Rightarrow> (Some (Error m), s, w2)
           | (None, w2) \<Rightarrow>
               (None, s,
                emit (AppendLog (si_slug storyInfo) (log_entry errorInfo))
                  (w2\<lparr>errors_log := (errors_log w2)(si_slug storyInfo :=
                         errors_log w2 (si_slug storyInfo) @ [log_entry errorInfo])\<rparr>))))"

text \<open>The console lines of \<open>main\<close> that depend on the run: the note on existing chapters,
  and the final summary. The banner and the per-chapter progress lines are left out.\<close>

definition found_message :: "bool \<Rightarrow> nat \<Rightarrow> string" where
  "found_message res n =
     (if res then ''Found '' @ show_nat n @ '' existing chapters. Will skip them.''
      else ''Found '' @ show_nat n @
           '' existing chapters. Use --resume to skip them, or --force to re-crawl.'')"

definition final_summary :: "nat \<Rightarrow> nat \<Rightarrow> nat \<Rightarrow> string list" where
  "final_summary crawled saved finalExisting =
     [''Crawling completed!'',
      ''Total chapters crawled: '' @ show_nat crawled,
      ''Chapters saved: '' @ show_nat saved] @
     (if int finalExisting - int saved > 0
      then [''Chapters skipped (already existed): '' @ show_int (int finalExisting - int saved)]
      else []) @
     [''Done!'']"

text \<open>\<open>main\<close> from the construction of the crawler on: the exit code (\<open>0\<close> when the run
  reaches its end, \<open>1\<close> from \<open>process.exit(1)\<close> in the \<open>catch\<close>), the console lines, the
  final state of the callbacks' variables when the crawl was reached, and the world.\<close>

definition main_run ::
  "options \<Rightarrow> string \<Rightarrow> env \<Rightarrow> world \<Rightarrow> (nat \<times> string list \<times> main_state option) \<times> world" where
  "main_run opts storyUrl en w =
     (let crawler = TruyenFullCrawler (opt_delay opts) (Some 3) (Some 30000) in
      case getStoryInfo crawler en storyUrl w of
        (Inl e, w1) \<Rightarrow> ((1, [''Error: '' @ message e], None), w1)
      | (Inr storyInfo, w1) \<Rightarrow>
          (case saveStoryInfo en storyInfo w1 of
             (Some e, w2) \<Rightarrow> ((1, [''Error: '' @ message e], None), w2)
           | (None, w2) \<Rightarrow>
               (let existingChapters =
                      (if \<not> force opts
                       then getExistingChapters (si_slug storyInfo) (format opts) w2 else []);
                    found =
                      (if \<not> force opts \<and> length existingChapters > 0
                       then [found_message (resume opts) (length existingChapters)] else []);
                    loaded =
                      (if \<not> force opts \<and> length existingChapters > 0
                       then loadExistingChapters (si_slug storyInfo) (format opts) w2 else []);
                    s0 = \<lparr>savedCount = 0, skippedCount = 0, allCrawledChapters = loaded,
                          saveErrors = []\<rparr>
                in case crawlStory crawler en storyUrl (startChapter opts) (endChapter opts)
                          (onChapterCrawled opts storyInfo existingChapters en)
                          (onError opts storyInfo en)
                          (if \<not> force opts then Some existingChapters else None) s0 w2 of
                     (Inl e, s, w3) \<Rightarrow> ((1, found @ [''Error: '' @ message e], Some s), w3)
                   | (Inr result, s, w3) \<Rightarrow>
                       ((0, found @
                            final_summary (length (snd result)) (savedCount s)
                              (length (getExistingChapters (si_slug storyInfo) (format opts) w3)),
                         Some s), w3))))"

definition default_options :: options where
  "default_options =
     \<lparr>outputDir = ''./output'', opt_delay = Some 1000, startChapter = None, endChapter = None,
      format = ''json'', resume = True, force = False\<rparr>"

text \<open>The option loop of \<open>main\<close>; \<open>Inl 1\<close> is \<open>process.exit(1)\<close> on a format that is
  neither \<open>json\<close> nor \<open>txt\<close>.\<close>

function parse_options :: "string list \<Rightarrow> options \<Rightarrow> nat + options" where
  "parse_options [] opts = Inr opts"
| "parse_options (arg # rest) opts =
     (if arg = ''--output-dir'' \<and> rest \<noteq> [] \<and> hd rest \<noteq> []
      then parse_options (tl rest) (opts\<lparr>outputDir := hd rest\<rparr>)
      else if arg = ''--delay'' \<and> rest \<noteq> [] \<and> hd rest \<noteq> []
      then parse_options (tl rest) (opts\<lparr>opt_delay := parseInt (hd rest)\<rparr>)
      else if arg = ''--start'' \<and> rest \<noteq> [] \<and> hd rest \<noteq> []
      then parse_options (tl rest) (opts\<lparr>startChapter := parseInt (hd rest)\<rparr>)
      else if arg = ''--end'' \<and> rest \<noteq> [] \<and> hd rest \<noteq> []
      then parse_options (tl rest) (opts\<lparr>endChapter := parseInt (hd rest)\<rparr>)
      else if arg = ''--format'' \<and> rest \<noteq> [] \<and> hd rest \<noteq> []
      then (if hd rest = ''json'' \<or> hd rest = ''txt''
            then parse_options (tl rest) (opts\<lparr>format := hd rest\<rparr>) else Inl 1)
      else if arg = ''--resume'' then parse_options rest (opts\<lparr>resume := True\<rparr>)
      else if arg = ''--no-resume'' then parse_options rest (opts\<lparr>resume := False\<rparr>)
      else if arg = ''--force'' then parse_options rest (opts\<lparr>force := True, resume := False\<rparr>)
      else parse_options rest opts)"
  by pat_completeness auto
termination
  by (relation "measure (\<lambda>(args, opts). length args)") auto

definition main :: "string list \<Rightarrow> env \<Rightarrow> world \<Rightarrow> (nat \<times> string list \<times> main_state option) \<times> world" where
  "main args en w =
     (if args = [] \<or> ''--help'' \<in> set args then ((0, [], None), w)
      else if hd args = [] \<or> \<not> prefix ''http'' (hd args)
      then ((1, [''Error: Please provide a valid story URL''], None), w)
      else (case parse_options (tl args) default_options of
              Inl code \<Rightarrow> ((code, [''Error: Format must be either json or txt''], None), w)
            | Inr opts \<Rightarrow> main_run opts (hd args) en w))"

section \<open>Vocabulary of the properties\<close>

text \<open>\<open>precedes x y zs\<close>: some occurrence of \<open>x\<close> in \<open>zs\<close> comes before an occurrence of
  \<open>y\<close>.\<close>

fun precedes :: "'a \<Rightarrow> 'a \<Rightarrow> 'a list \<Rightarrow> bool" where
  "precedes x y [] = False"
| "precedes x y (z # zs) = ((z = x \<and> y \<in> set zs) \<or> precedes x y zs)"

text \<open>The order the listing is said to have after the sort of \<open>getAllChapters\<close>: two
  references with numbers stand in ascending number order, and two references of which one
  has no number stand as they stood in the merged listing.\<close>

definition listing_order_claim :: "chapter_ref list \<Rightarrow> chapter_ref list \<Rightarrow> bool" where
  "listing_order_claim merged out =
     (\<forall>a\<in>set merged. \<forall>b\<in>set merged.
        (case (ref_number a, ref_number b) of
           (Some x, Some y) \<Rightarrow> x < y \<longrightarrow> precedes a b out
         | _ \<Rightarrow> precedes a b merged \<longrightarrow> precedes a b out))"






text \<open>The requests and waits of \<open>n\<close> failed attempts at \<open>u\<close>, the first of them made with
  retry count \<open>k\<close>: after the failed attempt with retry count \<open>j\<close> the crawler waits
  \<open>d * (j + 1)\<close> before the next one.\<close>

definition backoff :: "string \<Rightarrow> int \<Rightarrow> nat \<Rightarrow> nat \<Rightarrow> event list" where
  "backoff u d k n = concat (map (\<lambda>j. [Request u, Sleep (d * (int j + 1))]) [k ..< k + n])"

text \<open>A world with nothing on disk and nothing done yet, and a network that never answers.\<close>

definition empty_world :: world where
  "empty_world =
     \<lparr>reqs = 0, ios = 0, trace = [], chapter_store = (\<lambda>d. None), info_json = (\<lambda>d. None),
      story_json = (\<lambda>d. None), errors_log = (\<lambda>d. [])\<rparr>"

definition dead_network :: env where
  "dead_network =
     \<lparr>net = (\<lambda>k u. TimedOut), disk_err = (\<lambda>k. None), clock = (\<lambda>k. ''2024-01-01T00:00:00.000Z''),
      render_text = (\<lambda>s. s), render_html = (\<lambda>s. s)\<rparr>"

text \<open>
  A small site for concrete runs. Every URL that is not in \<open>unreachable\<close> answers with the
  same document: a story page with one listing page whose chapter links are \<open>hrefs\<close>, which
  is also a chapter page with a title and a body. The mutating file-system calls whose
  indices are in \<open>failing\<close> throw.
\<close>

definition site_page :: "string list \<Rightarrow> page" where
  "site_page hrefs =
     \<lparr>h1_first = ''Story'', title_story = [], total_page_val = Some ''1'',
      list_chapter_links = map (\<lambda>h. \<lparr>a_href = Some h, a_title = Some ''Chapter'', a_text = []\<rparr>) hrefs,
      h2_chapter_title = ''Chapter'', cls_chapter_title = [], h2_first = [],
      id_chapter_c = Some ''body'', cls_chapter_c = None\<rparr>"

definition site :: "string list \<Rightarrow> string list \<Rightarrow> nat list \<Rightarrow> env" where
  "site hrefs unreachable failing =
     \<lparr>net = (\<lambda>k u. if u \<in> set unreachable then TimedOut else Response 200 (site_page hrefs)),
      disk_err = (\<lambda>k. if k \<in> set failing then Some ''EIO: i/o error, write'' else None),
      clock = (\<lambda>k. ''2024-01-01T00:00:00.000Z''),
      render_text = (\<lambda>s. s), render_html = (\<lambda>s. s)\<rparr>"


text \<open>What a run leaves behind, apart from the console: the exit code, the callbacks'
  variables and the world.\<close>

definition effects ::
  "(nat \<times> string list \<times> main_state option) \<times> world \<Rightarrow> nat \<times> main_state option \<times> world" where
  "effects r = (fst (fst r), snd (snd (fst r)), snd r)"

definition console :: "(nat \<times> string list \<times> main_state option) \<times> world \<Rightarrow> string list" where
  "console r = fst (snd (fst r))"

text \<open>A console line reports a count when it ends with a colon, a space and the number.\<close>

definition reports :: "string list \<Rightarrow> nat \<Rightarrow> bool" where
  "reports out n = list_ex (\<lambda>line. suffix ('': '' @ show_nat n) line) out"

definition is_WriteInfo :: "event \<Rightarrow> bool" where
  "is_WriteInfo e = (case e of WriteInfo d i \<Rightarrow> True | _ \<Rightarrow> False)"

definition root_fetches :: "string \<Rightarrow> world \<Rightarrow> nat" where
  "root_fetches storyUrl w = length (filter (\<lambda>e. e = Request storyUrl) (trace w))"

text \<open>\<open>extends P w w'\<close>: the world \<open>w'\<close> has the effects of \<open>w\<close> followed by further effects,
  all of which satisfy \<open>P\<close>.\<close>

definition extends :: "(event \<Rightarrow> bool) \<Rightarrow> world \<Rightarrow> world \<Rightarrow> bool" where
  "extends P w w' = (\<exists>es. trace w' = trace w @ es \<and> list_all P es)"

text \<open>Three values \<open>main\<close> computes between saving the story information and the crawl: the
  set of existing chapters, the console note on them, and the initial values of the
  variables its callbacks update.\<close>

definition main_existing :: "options \<Rightarrow> story_info \<Rightarrow> world \<Rightarrow> nat list" where
  "main_existing opts storyInfo w =
     (if \<not> force opts then getExistingChapters (si_slug storyInfo) (format opts) w else [])"

definition main_found :: "options \<Rightarrow> story_info \<Rightarrow> world \<Rightarrow> string list" where
  "main_found opts storyInfo w =
     (if \<not> force opts \<and> length (main_existing opts storyInfo w) > 0
      then [found_message (resume opts) (length (main_existing opts storyInfo w))] else [])"

definition main_initial :: "options \<Rightarrow> story_info \<Rightarrow> world \<Rightarrow> main_state" where
  "main_initial opts storyInfo w =
     \<lparr>savedCount = 0, skippedCount = 0,
      allCrawledChapters =
        (if \<not> force opts \<and> length (main_existing opts storyInfo w) > 0
         then loadExistingChapters (si_slug storyInfo) (format opts) w else []),
      saveErrors = []\<rparr>"

text \<open>The options with the \<open>resume\<close> field blanked.\<close>

definition forget_resume :: "options \<Rightarrow> options" where
  "forget_resume opts = opts\<lparr>resume := False\<rparr>"

text \<open>Two counts read off the effects of a run: the chapter files written and the records
  appended to \<open>errors.log\<close>.\<close>

definition is_WriteChapter :: "event \<Rightarrow> bool" where
  "is_WriteChapter e = (case e of WriteChapter d f \<Rightarrow> True | _ \<Rightarrow> False)"

definition is_AppendLog :: "event \<Rightarrow> bool" where
  "is_AppendLog e = (case e of AppendLog d l \<Rightarrow> True | _ \<Rightarrow> False)"

definition chapters_written :: "world \<Rightarrow> nat" where
  "chapters_written w = length (filter is_WriteChapter (trace w))"

definition records_logged :: "world \<Rightarrow> nat" where
  "records_logged w = length (filter is_AppendLog (trace w))"

text \<open>The references \<open>crawlStory\<close> goes through when \<open>main\<close> calls it, given the sorted
  listing, and that call itself.\<close>

definition main_refs :: "options \<Rightarrow> story_info \<Rightarrow> world \<Rightarrow> chapter_ref list \<Rightarrow> chapter_ref list" where
  "main_refs opts storyInfo w listing =
     resume_filter (if \<not> force opts then Some (main_existing opts storyInfo w) else None)
       (range_filter (startChapter opts) (endChapter opts) listing)"

definition main_crawl ::
  "options \<Rightarrow> string \<Rightarrow> env \<Rightarrow> story_info \<Rightarrow> world
    \<Rightarrow> (error + story_info \<times> chap list) \<times> main_state \<times> world" where
  "main_crawl opts storyUrl en storyInfo w =
     crawlStory (TruyenFullCrawler (opt_delay opts) (Some 3) (Some 30000)) en storyUrl
       (startChapter opts) (endChapter opts)
       (onChapterCrawled opts storyInfo (main_existing opts storyInfo w) en)
       (onError opts storyInfo en)
       (if \<not> force opts then Some (main_existing opts storyInfo w) else None)
       (main_initial opts storyInfo w) w"

section \<open>Properties\<close>

subsection \<open>Evaluating concrete runs\<close>

lemma replicate_numeral_unfold: "replicate (numeral k) x = x # replicate (pred_numeral k) x"
  by (simp add: numeral_eq_Suc)

lemmas run_defs =
  getStoryInfo_def getChaptersFromPage_def getAllChapters_def getChapterContent_def
  crawlStory_def main_run_def main_def TruyenFullCrawler_def or_default_def emit_def delay_def
  attempt_def js_or_def parseInt_def is_space_def is_digit_def digits_val_def digit_val_def
  baseUrl_def strip_slash_def chapter_number_of_def link_ref_def compare_refs_def
  page_numbers_def truthy_def in_range_def range_filter_def not_existing_def resume_filter_def
  js_sort_def is_invalid_char_def trim_def sanitizeFileName_def io_def ext_of_def
  chapterFileName_def saveChapter_def order_or0_def compare_chapters_def metadata_def
  manifest_of_def updateStoryJson_def getExistingChapters_def saveStoryInfo_def
  loadExistingChapters_def onChapterCrawled_def log_entry_def onError_def found_message_def
  final_summary_def default_options_def show_int_def padStart_def
  fetchPage.simps show_nat.simps Let_def List.map_filter_def List.enumerate_eq_zip
  site_page_def site_def empty_world_def effects_def console_def reports_def suffix_to_prefix
  is_WriteInfo_def root_fetches_def replicate_numeral_unfold

subsection \<open>The sort of the merged listing\<close>


lemma set_insert_by: "set (insert_by cmp x ys) = insert x (set ys)"
  by (induction ys) auto

lemma mset_insert_by: "mset (insert_by cmp x ys) = add_mset x (mset ys)"
  by (induction ys) auto

lemma mset_js_sort: "mset (js_sort cmp xs) = mset xs"
  by (induction xs) (auto simp: js_sort_def mset_insert_by)














lemma precedes_members: "precedes x y zs \<Longrightarrow> x \<in> set zs \<and> y \<in> set zs"
  by (induction zs) auto

lemma precedes_irrefl: "distinct zs \<Longrightarrow> \<not> precedes x x zs"
  by (induction zs) auto

lemma precedes_trans:
  "distinct zs \<Longrightarrow> precedes x y zs \<Longrightarrow> precedes y z zs \<Longrightarrow> precedes x z zs"
proof (induction zs)
  case Nil
  then show ?case by simp
next
  case (Cons w ws)
  show ?case
  proof (cases "w = x \<and> y \<in> set ws")
    case True
    then have "w \<noteq> y" using Cons.prems(1) by auto
    then have "precedes y z ws" using Cons.prems(3) by simp
    then have "z \<in> set ws" using precedes_members by fastforce
    then show ?thesis using True by simp
  next
    case False
    then have xy: "precedes x y ws" using Cons.prems(2) by auto
    then have "y \<in> set ws" using precedes_members by fastforce
    then have "w \<noteq> y" using Cons.prems(1) by auto
    then have "precedes y z ws" using Cons.prems(3) by simp
    then show ?thesis using Cons.IH xy Cons.prems(1) by simp
  qed
qed

text \<open>
  The listing of the counterexample to C5 admits no order at all that the claim allows:
  chapter 5 would stand before the numberless link, that link before chapter 3, and
  chapter 3 before chapter 5. The failure of C5 does therefore not depend on how the engine
  sorts with a comparator that is not consistent.
\<close>

lemma listing_order_claim_unsatisfiable:
  assumes "mset out =
     mset [\<lparr>ref_number = Some 5, ref_title = ''Chapter'', ref_url = ''https://truyenfull.vision/s/chuong-5/'', ref_order = 0\<rparr>,
        \<lparr>ref_number = None, ref_title = ''Chapter'', ref_url = ''https://truyenfull.vision/s/ngoai-truyen/'', ref_order = 1\<rparr>,
        \<lparr>ref_number = Some 3, ref_title = ''Chapter'', ref_url = ''https://truyenfull.vision/s/chuong-3/'', ref_order = 2\<rparr>]"
  shows "\<not> listing_order_claim
       [\<lparr>ref_number = Some 5, ref_title = ''Chapter'', ref_url = ''https://truyenfull.vision/s/chuong-5/'', ref_order = 0\<rparr>,
        \<lparr>ref_number = None, ref_title = ''Chapter'', ref_url = ''https://truyenfull.vision/s/ngoai-truyen/'', ref_order = 1\<rparr>,
        \<lparr>ref_number = Some 3, ref_title = ''Chapter'', ref_url = ''https://truyenfull.vision/s/chuong-3/'', ref_order = 2\<rparr>]
       out"
proof
  let ?a = "\<lparr>ref_number = Some 5, ref_title = ''Chapter'', ref_url = ''https://truyenfull.vision/s/chuong-5/'', ref_order = 0\<rparr>"
  let ?b = "\<lparr>ref_number = None, ref_title = ''Chapter'', ref_url = ''https://truyenfull.vision/s/ngoai-truyen/'', ref_order = 1\<rparr>"
  let ?c = "\<lparr>ref_number = Some 3, ref_title = ''Chapter'', ref_url = ''https://truyenfull.vision/s/chuong-3/'', ref_order = 2\<rparr>"
  assume claim: "listing_order_claim [?a, ?b, ?c] out"
  have "distinct [?a, ?b, ?c]" by simp
  then have d: "distinct out"
    using assms mset_eq_imp_distinct_iff by blast
  have ab: "precedes ?a ?b out" and bc: "precedes ?b ?c out" and ca: "precedes ?c ?a out"
    using claim by (simp_all add: listing_order_claim_def)
  from precedes_trans [OF d ab bc] have "precedes ?a ?c out" .
  from precedes_trans [OF d this ca] have "precedes ?a ?a out" .
  then show False using precedes_irrefl [OF d] by blast
qed

subsection \<open>Retry and backoff of \<open>fetchPage\<close>\<close>

lemma backoff_Suc:
  "backoff u d k (Suc n) = [Request u, Sleep (d * (int k + 1))] @ backoff u d (Suc k) n"
  by (simp add: backoff_def upt_conv_Cons)

lemma fetchPage_failures:
  assumes "\<forall>j<n. \<exists>m. attempt (net en (reqs w + j) u) = Inl m" and "k + n \<le> retries c"
  shows "fetchPage c en u k w =
           fetchPage c en u (k + n)
             (w\<lparr>reqs := reqs w + n, trace := trace w @ backoff u (delay_ms c) k n\<rparr>)"
  using assms
proof (induction n arbitrary: k w)
  case 0
  then show ?case by (simp add: backoff_def)
next
  case (Suc n)
  obtain m where m: "attempt (net en (reqs w) u) = Inl m"
    using Suc.prems(1) by force
  define w' where "w' = delay (delay_ms c * (int k + 1)) (emit (Request u) (w\<lparr>reqs := reqs w + 1\<rparr>))"
  have step: "fetchPage c en u k w = fetchPage c en u (Suc k) w'"
    using m Suc.prems(2) by (subst fetchPage.simps) (simp add: w'_def Let_def)
  have "\<forall>j<n. \<exists>m. attempt (net en (reqs w' + j) u) = Inl m"
  proof (intro allI impI)
    fix j assume "j < n"
    then have "Suc j < Suc n" by simp
    then have "\<exists>m. attempt (net en (reqs w + Suc j) u) = Inl m"
      using Suc.prems(1) by blast
    then show "\<exists>m. attempt (net en (reqs w' + j) u) = Inl m"
      by (simp add: w'_def delay_def emit_def)
  qed
  moreover have "Suc k + n \<le> retries c" using Suc.prems(2) by simp
  ultimately have "fetchPage c en u (Suc k) w' =
      fetchPage c en u (Suc k + n)
        (w'\<lparr>reqs := reqs w' + n, trace := trace w' @ backoff u (delay_ms c) (Suc k) n\<rparr>)"
    by (rule Suc.IH)
  then show ?case
    unfolding step by (simp add: w'_def delay_def emit_def backoff_Suc)
qed

text \<open>
  C4. Let the first \<open>n\<close> attempts at \<open>u\<close> fail, with \<open>n\<close> at most the configured number of
  retries. Then \<open>fetchPage\<close> has made \<open>n\<close> retries so far, waiting \<open>delay * j\<close> before the
  \<open>j\<close>-th of them, and makes one more attempt: if it succeeds, its body is returned; if it
  fails and the retries are used up (\<open>n = retries\<close>), \<open>fetchPage\<close> throws
  \<open>Failed to fetch <url>: <message of the last failure>\<close>. No attempt is made beyond these.
\<close>

theorem fetchPage_retry:
  assumes "n \<le> retries c" and "\<forall>j<n. \<exists>m. attempt (net en (reqs w + j) u) = Inl m"
  shows "(\<forall>html. attempt (net en (reqs w + n) u) = Inr html \<longrightarrow>
            fetchPage c en u 0 w =
              (Inr html, w\<lparr>reqs := reqs w + n + 1,
                           trace := trace w @ backoff u (delay_ms c) 0 n @ [Request u]\<rparr>))
       \<and> (\<forall>m. n = retries c \<and> attempt (net en (reqs w + n) u) = Inl m \<longrightarrow>
            fetchPage c en u 0 w =
              (Inl (Error (''Failed to fetch '' @ u @ '': '' @ m)),
               w\<lparr>reqs := reqs w + n + 1,
                 trace := trace w @ backoff u (delay_ms c) 0 n @ [Request u]\<rparr>))"
proof -
  have skip: "fetchPage c en u 0 w =
      fetchPage c en u n (w\<lparr>reqs := reqs w + n, trace := trace w @ backoff u (delay_ms c) 0 n\<rparr>)"
    using fetchPage_failures [OF assms(2), of 0 c] assms(1) by simp
  have last_ok: "fetchPage c en u n
        (w\<lparr>reqs := reqs w + n, trace := trace w @ backoff u (delay_ms c) 0 n\<rparr>) =
      (Inr html, w\<lparr>reqs := reqs w + n + 1,
                   trace := trace w @ backoff u (delay_ms c) 0 n @ [Request u]\<rparr>)"
    if "attempt (net en (reqs w + n) u) = Inr html" for html
    using that by (subst fetchPage.simps) (simp add: Let_def emit_def)
  have last_fail: "fetchPage c en u n
        (w\<lparr>reqs := reqs w + n, trace := trace w @ backoff u (delay_ms c) 0 n\<rparr>) =
      (Inl (Error (''Failed to fetch '' @ u @ '': '' @ m)),
       w\<lparr>reqs := reqs w + n + 1,
         trace := trace w @ backoff u (delay_ms c) 0 n @ [Request u]\<rparr>)"
    if "attempt (net en (reqs w + n) u) = Inl m" and "n = retries c" for m
    using that by (subst fetchPage.simps) (simp add: Let_def emit_def)
  show ?thesis
  proof (intro conjI allI impI)
    fix html assume "attempt (net en (reqs w + n) u) = Inr html"
    from last_ok [OF this] show "fetchPage c en u 0 w =
        (Inr html, w\<lparr>reqs := reqs w + n + 1,
                     trace := trace w @ backoff u (delay_ms c) 0 n @ [Request u]\<rparr>)"
      unfolding skip .
  next
    fix m assume a: "n = retries c \<and> attempt (net en (reqs w + n) u) = Inl m"
    then have "attempt (net en (reqs w + n) u) = Inl m" and "n = retries c" by blast+
    from last_fail [OF this] show "fetchPage c en u 0 w =
        (Inl (Error (''Failed to fetch '' @ u @ '': '' @ m)),
         w\<lparr>reqs := reqs w + n + 1,
           trace := trace w @ backoff u (delay_ms c) 0 n @ [Request u]\<rparr>)"
      unfolding skip .
  qed
qed

text \<open>Witness for C4: three retries, one second of base delay, every attempt times out.\<close>

theorem fetchPage_retry_witness:
  "fetchPage (TruyenFullCrawler (Some 1000) (Some 3) (Some 30000)) dead_network
       ''https://truyenfull.vision/s'' 0 empty_world =
     (Inl (Error ''Failed to fetch https://truyenfull.vision/s: Request timeout''),
      empty_world\<lparr>reqs := 4,
        trace := [Request ''https://truyenfull.vision/s'', Sleep 1000,
                  Request ''https://truyenfull.vision/s'', Sleep 2000,
                  Request ''https://truyenfull.vision/s'', Sleep 3000,
                  Request ''https://truyenfull.vision/s'']\<rparr>)"
proof -
  have h1: "3 \<le> retries (TruyenFullCrawler (Some 1000) (Some 3) (Some 30000))"
    by (simp add: TruyenFullCrawler_def or_default_def)
  have h2: "\<forall>j<3. \<exists>m. attempt (net dead_network (reqs empty_world + j)
               ''https://truyenfull.vision/s'') = Inl m"
    by (simp add: dead_network_def attempt_def)
  show ?thesis
    using fetchPage_retry [OF h1 h2]
    by (simp add: TruyenFullCrawler_def or_default_def dead_network_def attempt_def
        empty_world_def backoff_def upt_rec [of 0] upt_rec [of 1] upt_rec [of 2]
        numeral_3_eq_3)
qed

subsection \<open>What each operation adds to the trace\<close>

lemma extends_refl: "trace w' = trace w \<Longrightarrow> extends P w w'"
  by (simp add: extends_def)

lemma extends_trans: "extends P w w1 \<Longrightarrow> extends P w1 w2 \<Longrightarrow> extends P w w2"
  by (auto simp: extends_def)

lemma extends_delay: "P (Sleep d) \<Longrightarrow> extends P w w1 \<Longrightarrow> extends P w (delay d w1)"
  by (auto simp: extends_def emit_def delay_def)

lemma fetchPage_extends:
  "P (Request u) \<Longrightarrow> \<forall>d. P (Sleep d) \<Longrightarrow> extends P w (snd (fetchPage c en u k w))"
proof (induction c en u k w rule: fetchPage.induct)
  case (1 c en u retryCount w)
  let ?w1 = "emit (Request u) (w\<lparr>reqs := reqs w + 1\<rparr>)"
  have w1: "extends P w ?w1"
    using "1.prems"(1) by (simp add: extends_def emit_def)
  show ?case
  proof (cases "attempt (net en (reqs w) u)")
    case (Inr html)
    then show ?thesis using w1 by (subst fetchPage.simps) (simp add: Let_def)
  next
    case (Inl msg)
    show ?thesis
    proof (cases "retryCount < retries c")
      case True
      let ?w2 = "delay (delay_ms c * (int retryCount + 1)) ?w1"
      have "extends P w ?w2"
        using "1.prems" by (simp add: extends_def emit_def delay_def)
      moreover have "extends P ?w2 (snd (fetchPage c en u (retryCount + 1) ?w2))"
        using "1.IH" [OF refl Inl True "1.prems"] .
      ultimately have "extends P w (snd (fetchPage c en u (retryCount + 1) ?w2))"
        by (rule extends_trans)
      then show ?thesis using Inl True by (subst fetchPage.simps) (simp add: Let_def)
    next
      case False
      then show ?thesis using Inl w1 by (subst fetchPage.simps) (simp add: Let_def)
    qed
  qed
qed


lemma io_trace: "trace (snd (io en w)) = trace w"
  by (simp add: io_def)

lemma getStoryInfo_extends:
  assumes "P (Request u)" and "\<forall>d. P (Sleep d)"
  shows "extends P w (snd (getStoryInfo c en u w))"
  using fetchPage_extends [of P u w c en 0, OF assms]
  by (cases "fetchPage c en u 0 w") (auto simp: getStoryInfo_def Let_def split: sum.splits)


lemma getChapterContent_extends:
  assumes "P (Request u)" and "\<forall>d. P (Sleep d)"
  shows "extends P w (snd (getChapterContent c en u w))"
  using fetchPage_extends [of P u w c en 0, OF assms]
  by (cases "fetchPage c en u 0 w") (auto simp: getChapterContent_def Let_def split: sum.splits)

lemma getChaptersFromPage_extends:
  assumes "\<forall>u. P (Request u)" and "\<forall>d. P (Sleep d)"
  shows "extends P w (snd (getChaptersFromPage c en u p w))"
proof -
  define v where "v = (if p > 1
               then strip_slash u @ ''/trang-'' @ show_nat p @ ''/#list-chapter''
               else u @ ''#list-chapter'')"
  have "extends P w (snd (fetchPage c en v 0 w))"
    using assms by (intro fetchPage_extends) auto
  then show ?thesis
    unfolding getChaptersFromPage_def Let_def v_def [symmetric]
    by (cases "fetchPage c en v 0 w") (auto split: sum.splits)
qed

lemma fetch_pages_extends:
  assumes "\<forall>u. P (Request u)" and "\<forall>d. P (Sleep d)"
  shows "extends P w (snd (fetch_pages c en u t ps acc w))"
proof (induction ps arbitrary: acc w)
  case Nil
  then show ?case by (simp add: extends_refl)
next
  case (Cons p ps)
  obtain r w1 where r: "getChaptersFromPage c en u p w = (r, w1)"
    by (cases "getChaptersFromPage c en u p w")
  have e1: "extends P w w1"
    using getChaptersFromPage_extends [of P w c en u p, OF assms] r by simp
  show ?case
  proof (cases r)
    case (Inl e)
    then show ?thesis using r e1 by simp
  next
    case (Inr chapters)
    let ?w2 = "if int p < t then delay (delay_ms c) w1 else w1"
    have "extends P w ?w2"
      using e1 assms(2) by (simp add: extends_delay)
    then have "extends P w (snd (fetch_pages c en u t ps (acc @ chapters) ?w2))"
      using Cons.IH extends_trans by blast
    then show ?thesis using r Inr by simp
  qed
qed

lemma getAllChapters_extends:
  assumes "\<forall>u. P (Request u)" and "\<forall>d. P (Sleep d)"
  shows "extends P w (snd (getAllChapters c en u w))"
proof -
  obtain r w1 where r: "getStoryInfo c en u w = (r, w1)"
    by (cases "getStoryInfo c en u w")
  have e1: "extends P w w1"
    using getStoryInfo_extends [of P u w c en] assms r by simp
  show ?thesis
  proof (cases r)
    case (Inl e)
    then show ?thesis using r e1 by (simp add: getAllChapters_def)
  next
    case (Inr info)
    define t where "t = (case si_totalPages info of None \<Rightarrow> 0 | Some n \<Rightarrow> n)"
    obtain r2 w2 where r2: "fetch_pages c en u t (page_numbers (si_totalPages info)) [] w1 = (r2, w2)"
      by (cases "fetch_pages c en u t (page_numbers (si_totalPages info)) [] w1")
    have "extends P w1 w2"
      using fetch_pages_extends [of P w1 c en u t _ "[]", OF assms] r2 by (metis snd_conv)
    then have "extends P w w2"
      using e1 extends_trans by blast
    then show ?thesis using r Inr r2
      by (cases r2) (simp_all add: getAllChapters_def t_def)
  qed
qed


lemma saveChapter_extends:
  assumes "\<forall>d f. P (WriteChapter d f)"
  shows "extends P w (snd (saveChapter en ch slug fmt w))"
  using assms
  by (auto simp: saveChapter_def io_def Let_def extends_def emit_def
           split: prod.splits sum.splits option.splits)

lemma updateStoryJson_extends:
  assumes "\<forall>d. P (WriteManifest d)"
  shows "extends P w (snd (updateStoryJson en info chs w))"
  using assms
  by (auto simp: updateStoryJson_def io_def Let_def extends_def emit_def
           split: prod.splits option.splits)

lemma saveStoryInfo_extends:
  assumes "\<forall>d i. P (WriteInfo d i)"
  shows "extends P w (snd (saveStoryInfo en info w))"
  using assms
  by (auto simp: saveStoryInfo_def io_def Let_def extends_def emit_def
           split: prod.splits option.splits)

lemma onError_extends:
  assumes "\<forall>d l. P (AppendLog d l)"
  shows "extends P w (snd (snd (onError opts info en ei s w)))"
  using assms
  by (auto simp: onError_def io_def Let_def extends_def emit_def
           split: prod.splits option.splits)

lemma onChapterCrawled_extends:
  assumes "\<forall>d f. P (WriteChapter d f)" and "\<forall>d. P (WriteManifest d)"
  shows "extends P w (snd (snd (onChapterCrawled opts info ex en ch s w)))"
proof -
  have m: "extends P w' (snd (updateStoryJson en info chs w'))" for chs w'
    using assms(2) by (rule updateStoryJson_extends)
  show ?thesis
  proof (cases "\<not> force opts \<and> (case ch_number ch of None \<Rightarrow> False | Some n \<Rightarrow> n \<in> set ex)")
    case True
    define chs where "chs =
      (if find (\<lambda>c. ch_number c = ch_number ch) (allCrawledChapters s) = None
       then allCrawledChapters s @ [ch] else allCrawledChapters s)"
    obtain r2 w2 where r2: "updateStoryJson en info chs w = (r2, w2)"
      by (cases "updateStoryJson en info chs w")
    have "extends P w w2" using m [of w chs] r2 by simp
    then show ?thesis
      using True r2 by (auto simp: onChapterCrawled_def Let_def chs_def split: if_splits)
  next
    case False
    then have nb: "(\<not> force opts \<and> (case ch_number ch of None \<Rightarrow> False | Some n \<Rightarrow> n \<in> set ex)) = False"
      by simp
    obtain r w1 where r: "saveChapter en ch (si_slug info) (format opts) w = (r, w1)"
      by (cases "saveChapter en ch (si_slug info) (format opts) w")
    have c: "extends P w w1"
      using saveChapter_extends [of P w en ch "si_slug info" "format opts", OF assms(1)] r by simp
    show ?thesis
    proof (cases r)
      case (Inl e)
      then show ?thesis using r c by (simp add: onChapterCrawled_def nb)
    next
      case (Inr saved)
      let ?chs = "allCrawledChapters s @ [ch]"
      obtain r2 w2 where r2: "updateStoryJson en info ?chs w1 = (r2, w2)"
        by (cases "updateStoryJson en info ?chs w1")
      have "extends P w1 w2" using m [of w1 ?chs] r2 by simp
      then have "extends P w w2" using c extends_trans by blast
      then show ?thesis using r Inr r2
        by (cases r2) (simp_all add: onChapterCrawled_def Let_def nb)
    qed
  qed
qed

subsection \<open>The chapter loop\<close>

lemma crawl_loop_extends:
  assumes "\<forall>ch s w. extends P w (snd (snd (onCh ch s w)))"
    and "\<forall>ei s w. extends P w (snd (snd (onErr ei s w)))"
    and "\<forall>d. P (Sleep d)"
  shows "\<forall>r\<in>set refs. P (Request (ref_url r)) \<Longrightarrow>
         extends P w (snd (snd (crawl_loop c en onCh onErr refs acc s w)))"
proof (induction refs arbitrary: acc s w)
  case Nil
  then show ?case by (simp add: extends_refl)
next
  case (Cons r rs)
  have ih: "extends P w' (snd (snd (crawl_loop c en onCh onErr rs acc' s' w')))" for acc' s' w'
    using Cons by simp
  obtain rc w1 where rc: "getChapterContent c en (ref_url r) w = (rc, w1)"
    by (cases "getChapterContent c en (ref_url r) w")
  have e1: "extends P w w1"
    using getChapterContent_extends [of P "ref_url r" w c en] Cons.prems assms(3) rc by simp
  show ?case
  proof (cases rc)
    case (Inl e)
    let ?ei = "\<lparr>ei_chapter = r, ei_error = message e, ei_timestamp = clock en (reqs w1)\<rparr>"
    obtain re s2 w2 where re: "onErr ?ei s w1 = (re, s2, w2)"
      by (cases "onErr ?ei s w1")
    have e2: "extends P w w2"
      using assms(2) re e1 extends_trans by (metis snd_conv)
    show ?thesis
    proof (cases re)
      case None
      have "extends P w (snd (snd (crawl_loop c en onCh onErr rs acc s2 w2)))"
        using e2 ih extends_trans by blast
      then show ?thesis using rc Inl re None by simp
    next
      case (Some e')
      then show ?thesis using rc Inl re e2 by simp
    qed
  next
    case (Inr ch)
    obtain ro s2 w2 where ro: "onCh ch s w1 = (ro, s2, w2)"
      by (cases "onCh ch s w1")
    have e2: "extends P w w2"
      using assms(1) ro e1 extends_trans by (metis snd_conv)
    show ?thesis
    proof (cases ro)
      case None
      let ?w3 = "if rs \<noteq> [] then delay (delay_ms c) w2 else w2"
      have "extends P w ?w3"
        using e2 assms(3) by (simp add: extends_delay)
      then have "extends P w (snd (snd (crawl_loop c en onCh onErr rs (acc @ [ch]) s2 ?w3)))"
        using ih extends_trans by blast
      then show ?thesis using rc Inr ro None by simp
    next
      case (Some e)
      let ?ei = "\<lparr>ei_chapter = r, ei_error = message e, ei_timestamp = clock en (reqs w2)\<rparr>"
      obtain re s3 w3 where re: "onErr ?ei s2 w2 = (re, s3, w3)"
        by (cases "onErr ?ei s2 w2")
      have e3: "extends P w w3"
        using assms(2) re e2 extends_trans by (metis snd_conv)
      show ?thesis
      proof (cases re)
        case None
        have "extends P w (snd (snd (crawl_loop c en onCh onErr rs (acc @ [ch]) s3 w3)))"
          using e3 ih extends_trans by blast
        then show ?thesis using rc Inr ro Some re None by simp
      next
        case (Some e')
        then show ?thesis using rc Inr ro \<open>ro = Some e\<close> re e3 by simp
      qed
    qed
  qed
qed



subsection \<open>Fetching and persisting the story information\<close>




lemma onChapterCrawled_extends_all:
  assumes "\<forall>d f. P (WriteChapter d f)" and "\<forall>d. P (WriteManifest d)"
  shows "\<forall>ch s w. extends P w (snd (snd (onChapterCrawled opts info ex en ch s w)))"
  using assms onChapterCrawled_extends [of P] by blast

lemma onError_extends_all:
  assumes "\<forall>d l. P (AppendLog d l)"
  shows "\<forall>ei s w. extends P w (snd (snd (onError opts info en ei s w)))"
  using assms onError_extends [of P] by blast

lemma main_run_reached:
  assumes "getStoryInfo (TruyenFullCrawler (opt_delay opts) (Some 3) (Some 30000)) en storyUrl w
             = (Inr info, w1)"
    and "saveStoryInfo en info w1 = (None, w2)"
    and "crawlStory (TruyenFullCrawler (opt_delay opts) (Some 3) (Some 30000)) en storyUrl
           (startChapter opts) (endChapter opts)
           (onChapterCrawled opts info (main_existing opts info w2) en) (onError opts info en)
           (if \<not> force opts then Some (main_existing opts info w2) else None)
           (main_initial opts info w2) w2 = (r3, s3, w3)"
  shows "main_run opts storyUrl en w =
           ((case r3 of Inl e \<Rightarrow> 1 | Inr result \<Rightarrow> 0,
             main_found opts info w2 @
               (case r3 of
                  Inl e \<Rightarrow> [''Error: '' @ message e]
                | Inr result \<Rightarrow>
                    final_summary (length (snd result)) (savedCount s3)
                      (length (getExistingChapters (si_slug info) (format opts) w3))),
             Some s3), w3)"
proof -
  have "main_run opts storyUrl en w =
      (case crawlStory (TruyenFullCrawler (opt_delay opts) (Some 3) (Some 30000)) en storyUrl
           (startChapter opts) (endChapter opts)
           (onChapterCrawled opts info (main_existing opts info w2) en) (onError opts info en)
           (if \<not> force opts then Some (main_existing opts info w2) else None)
           (main_initial opts info w2) w2 of
         (Inl e, s, w3) \<Rightarrow> ((1, main_found opts info w2 @ [''Error: '' @ message e], Some s), w3)
       | (Inr result, s, w3) \<Rightarrow>
           ((0, main_found opts info w2 @
                final_summary (length (snd result)) (savedCount s)
                  (length (getExistingChapters (si_slug info) (format opts) w3)),
             Some s), w3))"
    unfolding main_run_def Let_def main_existing_def main_found_def main_initial_def
    by (simp only: assms(1,2) prod.case sum.case option.case)
  then show ?thesis
    by (cases r3) (simp_all add: assms(3))
qed

lemma main_run_not_reached:
  assumes "snd (snd (fst (main_run opts storyUrl en w))) = Some s"
  obtains info w1 w2 where
    "getStoryInfo (TruyenFullCrawler (opt_delay opts) (Some 3) (Some 30000)) en storyUrl w
       = (Inr info, w1)"
    and "saveStoryInfo en info w1 = (None, w2)"
proof -
  let ?c = "TruyenFullCrawler (opt_delay opts) (Some 3) (Some 30000)"
  obtain r1 w1 where r1: "getStoryInfo ?c en storyUrl w = (r1, w1)"
    by (cases "getStoryInfo ?c en storyUrl w")
  then obtain info where info: "r1 = Inr info"
    using assms by (cases r1) (auto simp: main_run_def)
  obtain r2 w2 where r2: "saveStoryInfo en info w1 = (r2, w2)"
    by (cases "saveStoryInfo en info w1")
  then have "r2 = None"
    using assms r1 info by (cases r2) (auto simp: main_run_def)
  then show ?thesis using that r1 info r2 by blast
qed




subsection \<open>Concrete runs that contradict the specification\<close>

text \<open>
  C6: the code does not do what the claim says for a chapter without a number. A chapter
  page whose URL has no \<open>chuong-<digits>\<close> gives a chapter object with \<open>number = null\<close> and no
  \<open>order\<close> property, so \<open>saveChapter\<close> throws a \<open>TypeError\<close> on \<open>chapter.order.toString()\<close>
  after creating the directory, and writes no file. In a run over the links \<open>chuong-1\<close> and
  \<open>ngoai-truyen\<close> only chapter 1 is saved; the error is caught by \<open>onChapterCrawled\<close>.
\<close>

theorem saveChapter_numberless_throws:
  "fst (getChapterContent (TruyenFullCrawler (Some 1000) (Some 3) (Some 30000))
         (site [''/s/ngoai-truyen/''] [] []) ''https://truyenfull.vision/s/ngoai-truyen/''
         empty_world) =
     Inr \<lparr>ch_number = None, ch_title = ''Chapter'',
          ch_url = ''https://truyenfull.vision/s/ngoai-truyen/'', ch_body_text = ''body'',
          ch_body_html = ''body'', ch_order = None\<rparr>
   \<and> saveChapter (site [''/s/ngoai-truyen/''] [] [])
        \<lparr>ch_number = None, ch_title = ''Chapter'',
         ch_url = ''https://truyenfull.vision/s/ngoai-truyen/'', ch_body_text = ''body'',
         ch_body_html = ''body'', ch_order = None\<rparr> ''s'' ''json'' empty_world =
       (Inl (TypeError ''Cannot read properties of undefined (reading toString)''),
        empty_world\<lparr>ios := 1, chapter_store := (chapter_store empty_world)(''s'' := Some [])\<rparr>)
   \<and> fst (main [''https://truyenfull.vision/s'']
           (site [''/s/chuong-1/'', ''/s/ngoai-truyen/''] [] []) empty_world) =
       (0, [''Crawling completed!'', ''Total chapters crawled: 2'', ''Chapters saved: 1'',
            ''Done!''],
        Some \<lparr>savedCount = 1, skippedCount = 0,
              allCrawledChapters =
                [\<lparr>ch_number = Some 1, ch_title = ''Chapter'',
                  ch_url = ''https://truyenfull.vision/s/chuong-1/'', ch_body_text = ''body'',
                  ch_body_html = ''body'', ch_order = None\<rparr>],
              saveErrors = [''Cannot read properties of undefined (reading toString)'']\<rparr>)
   \<and> map_option (map fst)
        (chapter_store (snd (main [''https://truyenfull.vision/s'']
           (site [''/s/chuong-1/'', ''/s/ngoai-truyen/''] [] []) empty_world)) ''s'') =
       Some [''chapter-00001.json'']"
  by (simp add: run_defs)

text \<open>
  C6 also fails for chapter number \<open>0\<close>, which is falsy: the file name is taken from the
  missing \<open>order\<close> as well.
\<close>

lemma chapterFileName_zero:
  "chapterFileName \<lparr>ch_number = Some 0, ch_title = t, ch_url = u, ch_body_text = b,
                     ch_body_html = h, ch_order = None\<rparr> fmt =
     Inl (TypeError ''Cannot read properties of undefined (reading toString)'')"
  by (simp add: chapterFileName_def)

text \<open>For a chapter with a number other than \<open>0\<close> the file name is as the claim says.\<close>

lemma chapterFileName_numbered:
  "ch_number ch = Some n \<Longrightarrow> n \<noteq> 0 \<Longrightarrow>
     chapterFileName ch fmt =
       Inr (''chapter-'' @ replicate (5 - length (show_nat n)) CHR ''0'' @ show_nat n @ ''.'' @
            (if fmt = ''txt'' then ''txt'' else ''json''))"
  by (simp add: chapterFileName_def padStart_def ext_of_def)

text \<open>
  C1: the code does not keep the manifest free of repeated numbers. When the listing links
  the same chapter twice, both references are fetched and saved, the save branch of
  \<open>onChapterCrawled\<close> pushes both onto \<open>allCrawledChapters\<close> (only the skip branch looks for
  an entry with the same number first), and \<open>story.json\<close> lists chapter 1 twice.
\<close>

theorem manifest_repeats_number:
  "map_option (\<lambda>m. map m_number (snd m))
     (story_json (snd (main [''https://truyenfull.vision/s'']
        (site [''/s/chuong-1/'', ''/s/chuong-1/''] [] []) empty_world)) ''s'') =
     Some [Some 1, Some 1]"
  by (simp add: run_defs)

text \<open>
  C7: the code does not read the resume set from the chapter store when the slug is not a
  clean directory name. For a story URL that does not start with the base URL the slug is
  \<open>http:\<close>; chapters are written under the sanitized name \<open>http_\<close>, but
  \<open>getExistingChapters\<close> reads \<open>http:\<close>. After a first run has saved chapter 1, a second run
  without \<open>--force\<close> finds no existing chapter and fetches and writes chapter 1 again.
\<close>

theorem resume_reads_unsanitized_directory:
  "map_option (map fst)
     (chapter_store (snd (main [''http://truyenfull.vision/s''] (site [''/s/chuong-1/''] [] [])
        empty_world)) ''http_'') = Some [''chapter-00001.json'']
   \<and> getExistingChapters ''http:'' ''json''
       (snd (main [''http://truyenfull.vision/s''] (site [''/s/chuong-1/''] [] []) empty_world))
     = []
   \<and> drop 7 (trace (snd (main [''http://truyenfull.vision/s''] (site [''/s/chuong-1/''] [] [])
        (snd (main [''http://truyenfull.vision/s''] (site [''/s/chuong-1/''] [] [])
           empty_world))))) =
       [Request ''http://truyenfull.vision/s'',
        WriteInfo ''http_'' \<lparr>si_title = ''Story'', si_slug = ''http:'',
                             si_url = ''http://truyenfull.vision/s'', si_totalPages = Some 1\<rparr>,
        Request ''http://truyenfull.vision/s'',
        Request ''http://truyenfull.vision/s#list-chapter'',
        Request ''https://truyenfull.vision/s/chuong-1/'',
        WriteChapter ''http_'' ''chapter-00001.json'', WriteManifest ''http_'']"
  by (simp add: run_defs)

text \<open>When the slug is a clean directory name the second run fetches no chapter.\<close>

lemma resume_skips_when_slug_is_clean:
  "drop 7 (trace (snd (main [''https://truyenfull.vision/s''] (site [''/s/chuong-1/''] [] [])
        (snd (main [''https://truyenfull.vision/s''] (site [''/s/chuong-1/''] [] [])
           empty_world))))) =
       [Request ''https://truyenfull.vision/s'',
        WriteInfo ''s'' \<lparr>si_title = ''Story'', si_slug = ''s'',
                         si_url = ''https://truyenfull.vision/s'', si_totalPages = Some 1\<rparr>,
        Request ''https://truyenfull.vision/s'',
        Request ''https://truyenfull.vision/s#list-chapter'']"
  by (simp add: run_defs)

text \<open>
  C2, as stated, fails. Three chapters are listed and every attempt at chapter 2 times out:
  one error record is logged, and the console shows the crawled and the saved count only.
  No line reports the failed count \<open>1\<close>, and no line reports the skipped count \<open>0\<close>.
\<close>

theorem summary_reports_no_failed_count:
  "console (main [''https://truyenfull.vision/s'']
      (site [''/s/chuong-1/'', ''/s/chuong-2/'', ''/s/chuong-3/'']
         [''https://truyenfull.vision/s/chuong-2/''] []) empty_world) =
     [''Crawling completed!'', ''Total chapters crawled: 2'', ''Chapters saved: 2'', ''Done!'']
   \<and> length (errors_log (snd (main [''https://truyenfull.vision/s'']
        (site [''/s/chuong-1/'', ''/s/chuong-2/'', ''/s/chuong-3/'']
           [''https://truyenfull.vision/s/chuong-2/''] []) empty_world)) ''s'') = 1
   \<and> \<not> reports (console (main [''https://truyenfull.vision/s'']
        (site [''/s/chuong-1/'', ''/s/chuong-2/'', ''/s/chuong-3/'']
           [''https://truyenfull.vision/s/chuong-2/''] []) empty_world)) 1
   \<and> \<not> reports (console (main [''https://truyenfull.vision/s'']
        (site [''/s/chuong-1/'', ''/s/chuong-2/'', ''/s/chuong-3/'']
           [''https://truyenfull.vision/s/chuong-2/''] []) empty_world)) 0"
  by (simp add: run_defs)

text \<open>
  C3, as stated, fails. Two chapters are listed and the fourth mutating file-system call,
  the write of the file of chapter 1, throws. The run does not abort: chapter 2 is fetched
  and written next, and the run ends with exit code 0, the error only printed.
\<close>

theorem write_failure_does_not_abort:
  "fst (main [''https://truyenfull.vision/s''] (site [''/s/chuong-1/'', ''/s/chuong-2/''] [] [3])
        empty_world) =
     (0, [''Crawling completed!'', ''Total chapters crawled: 2'', ''Chapters saved: 1'',
          ''Done!''],
      Some \<lparr>savedCount = 1, skippedCount = 0,
            allCrawledChapters =
              [\<lparr>ch_number = Some 2, ch_title = ''Chapter'',
                ch_url = ''https://truyenfull.vision/s/chuong-2/'', ch_body_text = ''body'',
                ch_body_html = ''body'', ch_order = None\<rparr>],
            saveErrors = [''EIO: i/o error, write'']\<rparr>)
   \<and> trace (snd (main [''https://truyenfull.vision/s'']
        (site [''/s/chuong-1/'', ''/s/chuong-2/''] [] [3]) empty_world)) =
       [Request ''https://truyenfull.vision/s'',
        WriteInfo ''s'' \<lparr>si_title = ''Story'', si_slug = ''s'',
                         si_url = ''https://truyenfull.vision/s'', si_totalPages = Some 1\<rparr>,
        Request ''https://truyenfull.vision/s'',
        Request ''https://truyenfull.vision/s#list-chapter'',
        Request ''https://truyenfull.vision/s/chuong-1/'', Sleep 1000,
        Request ''https://truyenfull.vision/s/chuong-2/'',
        WriteChapter ''s'' ''chapter-00002.json'', WriteManifest ''s'']"
  by (simp add: run_defs)

subsection \<open>Failures inside the chapter loop\<close>

lemma fetchPage_exhausted:
  assumes "\<forall>j\<le>retries c. attempt (net en (reqs w + j) u) = Inl (msg j)"
  shows "fetchPage c en u 0 w =
           (Inl (Error (''Failed to fetch '' @ u @ '': '' @ msg (retries c))),
            w\<lparr>reqs := reqs w + retries c + 1,
              trace := trace w @ backoff u (delay_ms c) 0 (retries c) @ [Request u]\<rparr>)"
proof -
  have "\<forall>j<retries c. \<exists>m. attempt (net en (reqs w + j) u) = Inl m"
    using assms by simp
  then have skip: "fetchPage c en u 0 w =
      fetchPage c en u (retries c)
        (w\<lparr>reqs := reqs w + retries c,
          trace := trace w @ backoff u (delay_ms c) 0 (retries c)\<rparr>)"
    using fetchPage_failures [of "retries c" en w u 0 c] by simp
  have "attempt (net en (reqs w + retries c) u) = Inl (msg (retries c))"
    using assms by simp
  then show ?thesis
    unfolding skip by (subst fetchPage.simps) (simp add: Let_def emit_def)
qed

lemma onError_ok:
  assumes "\<forall>k. disk_err en k = None"
  shows "fst (onError opts info en ei s w) = None"
  using assms by (simp add: onError_def io_def)

lemma onChapterCrawled_ok:
  assumes "\<forall>k. disk_err en k = None"
  shows "fst (onChapterCrawled opts info ex en ch s w) = None"
  using assms
  by (auto simp: onChapterCrawled_def updateStoryJson_def io_def Let_def
           split: prod.splits sum.splits option.splits)

lemma crawl_loop_completes:
  assumes "\<forall>k. disk_err en k = None"
  shows "\<exists>chs s' w'. crawl_loop c en (onChapterCrawled opts info ex en) (onError opts info en)
           refs acc s w = (Inr chs, s', w')"
proof (induction refs arbitrary: acc s w)
  case Nil
  then show ?case by simp
next
  case (Cons r rs)
  let ?onCh = "onChapterCrawled opts info ex en"
  let ?onErr = "onError opts info en"
  obtain rc w1 where rc: "getChapterContent c en (ref_url r) w = (rc, w1)"
    by (cases "getChapterContent c en (ref_url r) w")
  show ?case
  proof (cases rc)
    case (Inl e)
    let ?ei = "\<lparr>ei_chapter = r, ei_error = message e, ei_timestamp = clock en (reqs w1)\<rparr>"
    obtain re s2 w2 where re: "?onErr ?ei s w1 = (re, s2, w2)"
      by (cases "?onErr ?ei s w1")
    then have "re = None" using onError_ok [OF assms, of opts info ?ei s w1] by simp
    then show ?thesis using rc Inl re Cons.IH [of acc s2 w2] by simp
  next
    case (Inr ch)
    obtain ro s2 w2 where ro: "?onCh ch s w1 = (ro, s2, w2)"
      by (cases "?onCh ch s w1")
    then have "ro = None" using onChapterCrawled_ok [OF assms, of opts info ex ch s w1] by simp
    then show ?thesis
      using rc Inr ro
        Cons.IH [of "acc @ [ch]" s2 "if rs \<noteq> [] then delay (delay_ms c) w2 else w2"]
      by simp
  qed
qed

text \<open>
  C8, as amended. Let every attempt at the chapter page of a reference fail, so that its
  retry budget is used up. If the two file-system calls of \<open>onError\<close> (\<open>ensureDir\<close> and
  \<open>appendFile\<close>) succeed, the chapter loop appends one record to \<open>errors.log\<close>, made of the
  reference, the failure message and the time stamp, and goes on with the next reference:
  the list of crawled chapters and the variables of \<open>main\<close> are unchanged, and the loop is not
  left. If one of the two calls throws, its error leaves the loop: no record is appended and
  no further reference is fetched. And as long as no file-system call throws, no behaviour
  of the network makes the loop end with an exception, whatever the references.
\<close>

theorem fetch_failure_logged_or_fatal:
  assumes "\<forall>j\<le>retries c. attempt (net en (reqs w + j) (ref_url r)) = Inl (msg j)"
  shows "crawl_loop c en (onChapterCrawled opts info ex en) (onError opts info en)
           (r # rest) acc s w =
         (let entry = log_entry
                \<lparr>ei_chapter = r,
                 ei_error = ''Failed to get chapter content from '' @ ref_url r @ '': '' @
                            ''Failed to fetch '' @ ref_url r @ '': '' @ msg (retries c),
                 ei_timestamp = clock en (reqs w + retries c + 1)\<rparr>;
              fetched = w\<lparr>reqs := reqs w + retries c + 1,
                          trace := trace w @ backoff (ref_url r) (delay_ms c) 0 (retries c) @
                                   [Request (ref_url r)]\<rparr>
          in case disk_err en (ios w) of
               Some m \<Rightarrow> (Inl (Error m), s, fetched\<lparr>ios := ios w + 1\<rparr>)
             | None \<Rightarrow>
                 (case disk_err en (ios w + 1) of
                    Some m \<Rightarrow> (Inl (Error m), s, fetched\<lparr>ios := ios w + 2\<rparr>)
                  | None \<Rightarrow>
                      crawl_loop c en (onChapterCrawled opts info ex en) (onError opts info en)
                        rest acc s
                        (w\<lparr>reqs := reqs w + retries c + 1, ios := ios w + 2,
                           errors_log := (errors_log w)(si_slug info :=
                                            errors_log w (si_slug info) @ [entry]),
                           trace := trace w @ backoff (ref_url r) (delay_ms c) 0 (retries c) @
                                    [Request (ref_url r), AppendLog (si_slug info) entry]\<rparr>)))
       \<and> ((\<forall>k. disk_err en' k = None) \<longrightarrow>
            (\<exists>chs s' w'. crawl_loop c en' (onChapterCrawled opts info ex en')
                 (onError opts info en') refs acc' s0 w0 = (Inr chs, s', w')))"
proof (intro conjI impI)
  assume "\<forall>k. disk_err en' k = None"
  then show "\<exists>chs s' w'. crawl_loop c en' (onChapterCrawled opts info ex en')
                 (onError opts info en') refs acc' s0 w0 = (Inr chs, s', w')"
    by (rule crawl_loop_completes)
next
  have g: "getChapterContent c en (ref_url r) w =
      (Inl (Error (''Failed to get chapter content from '' @ ref_url r @ '': '' @
                   ''Failed to fetch '' @ ref_url r @ '': '' @ msg (retries c))),
       w\<lparr>reqs := reqs w + retries c + 1,
         trace := trace w @ backoff (ref_url r) (delay_ms c) 0 (retries c) @
                  [Request (ref_url r)]\<rparr>)"
    by (simp add: getChapterContent_def fetchPage_exhausted [OF assms(1)])
  show "crawl_loop c en (onChapterCrawled opts info ex en) (onError opts info en)
           (r # rest) acc s w =
         (let entry = log_entry
                \<lparr>ei_chapter = r,
                 ei_error = ''Failed to get chapter content from '' @ ref_url r @ '': '' @
                            ''Failed to fetch '' @ ref_url r @ '': '' @ msg (retries c),
                 ei_timestamp = clock en (reqs w + retries c + 1)\<rparr>;
              fetched = w\<lparr>reqs := reqs w + retries c + 1,
                          trace := trace w @ backoff (ref_url r) (delay_ms c) 0 (retries c) @
                                   [Request (ref_url r)]\<rparr>
          in case disk_err en (ios w) of
               Some m \<Rightarrow> (Inl (Error m), s, fetched\<lparr>ios := ios w + 1\<rparr>)
             | None \<Rightarrow>
                 (case disk_err en (ios w + 1) of
                    Some m \<Rightarrow> (Inl (Error m), s, fetched\<lparr>ios := ios w + 2\<rparr>)
                  | None \<Rightarrow>
                      crawl_loop c en (onChapterCrawled opts info ex en) (onError opts info en)
                        rest acc s
                        (w\<lparr>reqs := reqs w + retries c + 1, ios := ios w + 2,
                           errors_log := (errors_log w)(si_slug info :=
                                            errors_log w (si_slug info) @ [entry]),
                           trace := trace w @ backoff (ref_url r) (delay_ms c) 0 (retries c) @
                                    [Request (ref_url r), AppendLog (si_slug info) entry]\<rparr>)))"
  proof (cases "disk_err en (ios w)")
    case (Some m)
    then show ?thesis using g by (simp add: onError_def io_def Let_def)
  next
    case None
    show ?thesis
    proof (cases "disk_err en (ios w + 1)")
      case (Some m)
      then show ?thesis using g None by (simp add: onError_def io_def Let_def)
    next
      case n2: None
      then show ?thesis using g None by (simp add: onError_def io_def emit_def Let_def)
    qed
  qed
qed

text \<open>Witness for C8 as amended: chapter 2 is unreachable, three retries, the disk works.\<close>

theorem fetch_failure_logged_or_fatal_witness:
  "fst (crawl_loop (TruyenFullCrawler (Some 1000) (Some 3) (Some 30000))
        (site [] [''https://truyenfull.vision/s/chuong-2/''] [])
        (onChapterCrawled default_options
           \<lparr>si_title = ''Story'', si_slug = ''s'', si_url = ''https://truyenfull.vision/s'',
            si_totalPages = Some 1\<rparr> []
           (site [] [''https://truyenfull.vision/s/chuong-2/''] []))
        (onError default_options
           \<lparr>si_title = ''Story'', si_slug = ''s'', si_url = ''https://truyenfull.vision/s'',
            si_totalPages = Some 1\<rparr>
           (site [] [''https://truyenfull.vision/s/chuong-2/''] []))
        [\<lparr>ref_number = Some 2, ref_title = ''Chapter'',
          ref_url = ''https://truyenfull.vision/s/chuong-2/'', ref_order = 1\<rparr>] []
        \<lparr>savedCount = 0, skippedCount = 0, allCrawledChapters = [], saveErrors = []\<rparr>
        empty_world) = Inr []
   \<and> errors_log (snd (snd (crawl_loop (TruyenFullCrawler (Some 1000) (Some 3) (Some 30000))
        (site [] [''https://truyenfull.vision/s/chuong-2/''] [])
        (onChapterCrawled default_options
           \<lparr>si_title = ''Story'', si_slug = ''s'', si_url = ''https://truyenfull.vision/s'',
            si_totalPages = Some 1\<rparr> []
           (site [] [''https://truyenfull.vision/s/chuong-2/''] []))
        (onError default_options
           \<lparr>si_title = ''Story'', si_slug = ''s'', si_url = ''https://truyenfull.vision/s'',
            si_totalPages = Some 1\<rparr>
           (site [] [''https://truyenfull.vision/s/chuong-2/''] []))
        [\<lparr>ref_number = Some 2, ref_title = ''Chapter'',
          ref_url = ''https://truyenfull.vision/s/chuong-2/'', ref_order = 1\<rparr>] []
        \<lparr>savedCount = 0, skippedCount = 0, allCrawledChapters = [], saveErrors = []\<rparr>
        empty_world))) ''s'' =
       [''[2024-01-01T00:00:00.000Z] Chapter 2 - Chapter: Failed to get chapter content from https://truyenfull.vision/s/chuong-2/: Failed to fetch https://truyenfull.vision/s/chuong-2/: Request timeout'' @ [CHR 0x0A]]"
proof -
  let ?c = "TruyenFullCrawler (Some 1000) (Some 3) (Some 30000)"
  let ?en = "site [] [''https://truyenfull.vision/s/chuong-2/''] []"
  let ?r = "\<lparr>ref_number = Some 2, ref_title = ''Chapter'',
          ref_url = ''https://truyenfull.vision/s/chuong-2/'', ref_order = 1\<rparr>"
  have h1: "\<forall>j\<le>retries ?c. attempt (net ?en (reqs empty_world + j) (ref_url ?r))
              = Inl ((\<lambda>j. ''Request timeout'') j)"
    by (simp add: site_def attempt_def)
  show ?thesis
    unfolding fetch_failure_logged_or_fatal [OF h1, THEN conjunct1]
    by (simp add: Let_def log_entry_def empty_world_def site_def show_nat.simps)
qed

text \<open>
  C8, as stated, fails. Two chapters are listed, every attempt at chapter 1 times out, and
  the third mutating file-system call, the \<open>ensureDir\<close> of \<open>onError\<close>, throws. \<open>onError\<close> has no
  \<open>try\<close> of its own and is called from the \<open>catch\<close> of the loop body, so the error leaves the
  loop and \<open>crawlStory\<close>: no record is appended, chapter 2 is never requested, nothing is
  saved, and the run ends with exit code 1.
\<close>

theorem log_failure_aborts_run:
  "fst (main [''https://truyenfull.vision/s'']
      (site [''/s/chuong-1/'', ''/s/chuong-2/''] [''https://truyenfull.vision/s/chuong-1/''] [2])
      empty_world) =
     (1, [''Error: Failed to crawl story: EIO: i/o error, write''],
      Some \<lparr>savedCount = 0, skippedCount = 0, allCrawledChapters = [], saveErrors = []\<rparr>)
   \<and> errors_log (snd (main [''https://truyenfull.vision/s'']
        (site [''/s/chuong-1/'', ''/s/chuong-2/''] [''https://truyenfull.vision/s/chuong-1/''] [2])
        empty_world)) ''s'' = []
   \<and> Request ''https://truyenfull.vision/s/chuong-2/'' \<notin>
       set (trace (snd (main [''https://truyenfull.vision/s'']
        (site [''/s/chuong-1/'', ''/s/chuong-2/''] [''https://truyenfull.vision/s/chuong-1/''] [2])
        empty_world)))
   \<and> chapter_store (snd (main [''https://truyenfull.vision/s'']
        (site [''/s/chuong-1/'', ''/s/chuong-2/''] [''https://truyenfull.vision/s/chuong-1/''] [2])
        empty_world)) ''s'' = None"
  by (simp add: run_defs)

text \<open>
  C3, as amended. When the chapter of a reference has been fetched and \<open>onChapterCrawled\<close>
  takes its save branch, no file-system error aborts the run: whatever the file-system
  calls of \<open>saveChapter\<close> and \<open>updateStoryJson\<close> do, the callback returns normally and the
  loop goes on with the next reference. An error of \<open>saveChapter\<close> leaves the counters as
  they were and adds its message to the printed errors; an error of \<open>updateStoryJson\<close> after
  a successful write adds its message after the chapter has been counted as saved.
\<close>

theorem save_failure_is_caught:
  assumes "getChapterContent c en (ref_url r) w = (Inr ch, w1)"
    and "force opts \<or> (case ch_number ch of None \<Rightarrow> True | Some n \<Rightarrow> n \<notin> set ex)"
  shows "\<exists>s2 w2.
           onChapterCrawled opts info ex en ch s w1 = (None, s2, w2)
         \<and> crawl_loop c en (onChapterCrawled opts info ex en) (onError opts info en)
             (r # rest) acc s w =
           crawl_loop c en (onChapterCrawled opts info ex en) (onError opts info en)
             rest (acc @ [ch]) s2 (if rest \<noteq> [] then delay (delay_ms c) w2 else w2)
         \<and> (\<forall>e w'. saveChapter en ch (si_slug info) (format opts) w1 = (Inl e, w') \<longrightarrow>
               s2 = s\<lparr>saveErrors := saveErrors s @ [message e]\<rparr> \<and> w2 = w')
         \<and> (\<forall>saved w' e w''.
               saveChapter en ch (si_slug info) (format opts) w1 = (Inr saved, w') \<and>
               updateStoryJson en info (allCrawledChapters s @ [ch]) w' = (Some e, w'') \<longrightarrow>
               s2 = s\<lparr>savedCount := savedCount s + 1,
                      allCrawledChapters := allCrawledChapters s @ [ch],
                      saveErrors := saveErrors s @ [message e]\<rparr> \<and> w2 = w'')"
proof -
  have nb: "(\<not> force opts \<and> (case ch_number ch of None \<Rightarrow> False | Some n \<Rightarrow> n \<in> set ex)) = False"
    using assms(2) by (auto split: option.splits)
  obtain r1 w' where r1: "saveChapter en ch (si_slug info) (format opts) w1 = (r1, w')"
    by (cases "saveChapter en ch (si_slug info) (format opts) w1")
  show ?thesis
  proof (cases r1)
    case (Inl e)
    then show ?thesis
      using r1 assms(1) by (simp add: onChapterCrawled_def nb)
  next
    case (Inr saved)
    obtain r2 w'' where r2: "updateStoryJson en info (allCrawledChapters s @ [ch]) w' = (r2, w'')"
      by (cases "updateStoryJson en info (allCrawledChapters s @ [ch]) w'")
    show ?thesis
      using r1 Inr r2 assms(1) by (cases r2) (simp_all add: onChapterCrawled_def nb Let_def)
  qed
qed

text \<open>Witness for C3 as amended: the write of the chapter file throws.\<close>

theorem save_failure_is_caught_witness:
  "getChapterContent (TruyenFullCrawler (Some 1000) (Some 3) (Some 30000))
     (site [''/s/chuong-1/''] [] [1]) ''https://truyenfull.vision/s/chuong-1/'' empty_world =
     (Inr \<lparr>ch_number = Some 1, ch_title = ''Chapter'',
           ch_url = ''https://truyenfull.vision/s/chuong-1/'', ch_body_text = ''body'',
           ch_body_html = ''body'', ch_order = None\<rparr>,
      empty_world\<lparr>reqs := 1, trace := [Request ''https://truyenfull.vision/s/chuong-1/'']\<rparr>)
   \<and> fst (saveChapter (site [''/s/chuong-1/''] [] [1])
        \<lparr>ch_number = Some 1, ch_title = ''Chapter'',
         ch_url = ''https://truyenfull.vision/s/chuong-1/'', ch_body_text = ''body'',
         ch_body_html = ''body'', ch_order = None\<rparr> ''s'' ''json''
        (empty_world\<lparr>reqs := 1, trace := [Request ''https://truyenfull.vision/s/chuong-1/'']\<rparr>))
       = Inl (Error ''EIO: i/o error, write'')
   \<and> (\<exists>s2 w2.
         onChapterCrawled default_options
           \<lparr>si_title = ''Story'', si_slug = ''s'', si_url = ''https://truyenfull.vision/s'',
            si_totalPages = Some 1\<rparr> [] (site [''/s/chuong-1/''] [] [1])
           \<lparr>ch_number = Some 1, ch_title = ''Chapter'',
            ch_url = ''https://truyenfull.vision/s/chuong-1/'', ch_body_text = ''body'',
            ch_body_html = ''body'', ch_order = None\<rparr>
           \<lparr>savedCount = 0, skippedCount = 0, allCrawledChapters = [], saveErrors = []\<rparr>
           (empty_world\<lparr>reqs := 1, trace := [Request ''https://truyenfull.vision/s/chuong-1/'']\<rparr>)
         = (None, s2, w2)
       \<and> s2 = \<lparr>savedCount = 0, skippedCount = 0, allCrawledChapters = [],
                saveErrors = [''EIO: i/o error, write'']\<rparr>)"
proof -
  let ?c = "TruyenFullCrawler (Some 1000) (Some 3) (Some 30000)"
  let ?en = "site [''/s/chuong-1/''] [] [1]"
  let ?ch = "\<lparr>ch_number = Some 1, ch_title = ''Chapter'',
           ch_url = ''https://truyenfull.vision/s/chuong-1/'', ch_body_text = ''body'',
           ch_body_html = ''body'', ch_order = None\<rparr>"
  let ?w1 = "empty_world\<lparr>reqs := 1, trace := [Request ''https://truyenfull.vision/s/chuong-1/'']\<rparr>"
  let ?r = "\<lparr>ref_number = Some 1, ref_title = ''Chapter'',
          ref_url = ''https://truyenfull.vision/s/chuong-1/'', ref_order = 0\<rparr>"
  let ?info = "\<lparr>si_title = ''Story'', si_slug = ''s'', si_url = ''https://truyenfull.vision/s'',
            si_totalPages = Some 1\<rparr>"
  let ?s = "\<lparr>savedCount = 0, skippedCount = 0, allCrawledChapters = [], saveErrors = []\<rparr>"
  have h1: "getChapterContent ?c ?en (ref_url ?r) empty_world = (Inr ?ch, ?w1)"
    by (simp add: run_defs)
  have h2: "force default_options \<or> (case ch_number ?ch of None \<Rightarrow> True | Some n \<Rightarrow> n \<notin> set [])"
    by simp
  obtain w' where sc: "saveChapter ?en ?ch (si_slug ?info) (format default_options) ?w1
      = (Inl (Error ''EIO: i/o error, write''), w')"
    by (simp add: run_defs)
  from save_failure_is_caught [OF h1 h2, of ?info ?s "[]" "[]"]
  obtain s2 w2 where
    a: "onChapterCrawled default_options ?info [] ?en ?ch ?s ?w1 = (None, s2, w2)" and
    b: "\<forall>e w'. saveChapter ?en ?ch (si_slug ?info) (format default_options) ?w1 = (Inl e, w') \<longrightarrow>
               s2 = ?s\<lparr>saveErrors := saveErrors ?s @ [message e]\<rparr> \<and> w2 = w'"
    by blast
  from b sc have "s2 = ?s\<lparr>saveErrors := saveErrors ?s @ [message (Error ''EIO: i/o error, write'')]\<rparr>"
    by blast
  then have "s2 = \<lparr>savedCount = 0, skippedCount = 0, allCrawledChapters = [],
                saveErrors = [''EIO: i/o error, write'']\<rparr>"
    by simp
  moreover have "fst (saveChapter ?en ?ch ''s'' ''json'' ?w1) = Inl (Error ''EIO: i/o error, write'')"
    using sc by (simp add: default_options_def)
  ultimately show ?thesis
    using h1 a by auto
qed

subsection \<open>The resume option\<close>

lemma onChapterCrawled_resume:
  "onChapterCrawled (opts\<lparr>resume := b\<rparr>) = onChapterCrawled opts"
  by (intro ext) (simp add: onChapterCrawled_def)

lemma onError_resume: "onError (opts\<lparr>resume := b\<rparr>) = onError opts"
  by (intro ext) (simp add: onError_def)

lemma main_run_fetch_failed:
  assumes "getStoryInfo (TruyenFullCrawler (opt_delay opts) (Some 3) (Some 30000)) en storyUrl w
             = (Inl e, w1)"
  shows "main_run opts storyUrl en w = ((1, [''Error: '' @ message e], None), w1)"
  using assms by (simp add: main_run_def)

lemma main_run_save_failed:
  assumes "getStoryInfo (TruyenFullCrawler (opt_delay opts) (Some 3) (Some 30000)) en storyUrl w
             = (Inr info, w1)"
    and "saveStoryInfo en info w1 = (Some e, w2)"
  shows "main_run opts storyUrl en w = ((1, [''Error: '' @ message e], None), w2)"
  using assms by (simp add: main_run_def)

lemma main_run_resume:
  "effects (main_run (opts\<lparr>resume := b\<rparr>) storyUrl en w) = effects (main_run opts storyUrl en w)"
proof -
  let ?o = "opts\<lparr>resume := b\<rparr>"
  let ?c = "TruyenFullCrawler (opt_delay opts) (Some 3) (Some 30000)"
  have c: "TruyenFullCrawler (opt_delay ?o) (Some 3) (Some 30000) = ?c" by simp
  obtain r1 w1 where r1: "getStoryInfo ?c en storyUrl w = (r1, w1)"
    by (cases "getStoryInfo ?c en storyUrl w")
  show ?thesis
  proof (cases r1)
    case (Inl e)
    then show ?thesis
      using main_run_fetch_failed [of opts en storyUrl w e w1]
        main_run_fetch_failed [of ?o en storyUrl w e w1] r1 by (simp add: effects_def)
  next
    case (Inr info)
    obtain r2 w2 where r2: "saveStoryInfo en info w1 = (r2, w2)"
      by (cases "saveStoryInfo en info w1")
    show ?thesis
    proof (cases r2)
      case (Some e)
      then show ?thesis
        using main_run_save_failed [where opts = opts and e = e and ?w1.0 = w1 and ?w2.0 = w2]
          main_run_save_failed [where opts = ?o and e = e and ?w1.0 = w1 and ?w2.0 = w2] r1 Inr r2
        by (simp add: effects_def)
    next
      case None
      let ?run = "crawlStory ?c en storyUrl (startChapter opts) (endChapter opts)
           (onChapterCrawled opts info (main_existing opts info w2) en) (onError opts info en)
           (if \<not> force opts then Some (main_existing opts info w2) else None)
           (main_initial opts info w2) w2"
      obtain r3 s3 w3 where r3: "?run = (r3, s3, w3)"
        by (cases ?run)
      have same: "main_existing ?o info w2 = main_existing opts info w2"
        "main_initial ?o info w2 = main_initial opts info w2"
        by (simp_all add: main_existing_def main_initial_def)
      have r3': "crawlStory (TruyenFullCrawler (opt_delay ?o) (Some 3) (Some 30000)) en storyUrl
           (startChapter ?o) (endChapter ?o)
           (onChapterCrawled ?o info (main_existing ?o info w2) en) (onError ?o info en)
           (if \<not> force ?o then Some (main_existing ?o info w2) else None)
           (main_initial ?o info w2) w2 = (r3, s3, w3)"
        using r3 by (auto simp: same onChapterCrawled_resume onError_resume)
      have g1: "getStoryInfo (TruyenFullCrawler (opt_delay ?o) (Some 3) (Some 30000)) en storyUrl w
             = (Inr info, w1)"
        using r1 Inr by simp
      have g2: "saveStoryInfo en info w1 = (None, w2)"
        using r2 None by simp
      show ?thesis
        using main_run_reached [OF g1 g2 r3'] main_run_reached [OF r1 [unfolded Inr] g2 r3]
        by (simp add: effects_def)
    qed
  qed
qed

lemma resume_update_last:
  "(opts\<lparr>resume := b\<rparr>)\<lparr>outputDir := d\<rparr> = (opts\<lparr>outputDir := d\<rparr>)\<lparr>resume := b\<rparr>"
  "(opts\<lparr>resume := b\<rparr>)\<lparr>opt_delay := n\<rparr> = (opts\<lparr>opt_delay := n\<rparr>)\<lparr>resume := b\<rparr>"
  "(opts\<lparr>resume := b\<rparr>)\<lparr>startChapter := n\<rparr> = (opts\<lparr>startChapter := n\<rparr>)\<lparr>resume := b\<rparr>"
  "(opts\<lparr>resume := b\<rparr>)\<lparr>endChapter := n\<rparr> = (opts\<lparr>endChapter := n\<rparr>)\<lparr>resume := b\<rparr>"
  "(opts\<lparr>resume := b\<rparr>)\<lparr>format := f\<rparr> = (opts\<lparr>format := f\<rparr>)\<lparr>resume := b\<rparr>"
  by (cases opts; simp)+

lemma parse_options_resume:
  "map_sum id forget_resume (parse_options args (opts\<lparr>resume := b\<rparr>)) =
   map_sum id forget_resume (parse_options args opts)"
proof (induction args opts rule: parse_options.induct)
  case (1 opts)
  then show ?case by (simp add: forget_resume_def)
next
  case (2 arg rest opts)
  define A1 where "A1 \<longleftrightarrow> arg = ''--output-dir'' \<and> rest \<noteq> [] \<and> hd rest \<noteq> []"
  define A2 where "A2 \<longleftrightarrow> arg = ''--delay'' \<and> rest \<noteq> [] \<and> hd rest \<noteq> []"
  define A3 where "A3 \<longleftrightarrow> arg = ''--start'' \<and> rest \<noteq> [] \<and> hd rest \<noteq> []"
  define A4 where "A4 \<longleftrightarrow> arg = ''--end'' \<and> rest \<noteq> [] \<and> hd rest \<noteq> []"
  define A5 where "A5 \<longleftrightarrow> arg = ''--format'' \<and> rest \<noteq> [] \<and> hd rest \<noteq> []"
  define A6 where "A6 \<longleftrightarrow> arg = ''--resume''"
  define A7 where "A7 \<longleftrightarrow> arg = ''--no-resume''"
  define A8 where "A8 \<longleftrightarrow> arg = ''--force''"
  have out: "A1 \<Longrightarrow> ?case"
    unfolding A1_def using "2.IH"(1) by (simp add: resume_update_last)
  have del: "A2 \<Longrightarrow> ?case"
    unfolding A2_def using "2.IH"(2) by (simp add: resume_update_last)
  have sta: "A3 \<Longrightarrow> ?case"
    unfolding A3_def using "2.IH"(3) by (simp add: resume_update_last)
  have en: "A4 \<Longrightarrow> ?case"
    unfolding A4_def using "2.IH"(4) by (simp add: resume_update_last)
  have fm: "A5 \<Longrightarrow> ?case"
    unfolding A5_def using "2.IH"(5) by (simp add: resume_update_last)
  have rs: "A6 \<Longrightarrow> ?case" unfolding A6_def by simp
  have nr: "A7 \<Longrightarrow> ?case" unfolding A7_def by simp
  have fo: "A8 \<Longrightarrow> ?case" unfolding A8_def by simp
  have other: ?case
    if "\<not> A1" "\<not> A2" "\<not> A3" "\<not> A4" "\<not> A5" "\<not> A6" "\<not> A7" "\<not> A8"
  proof -
    have n: "\<not> (arg = ''--output-dir'' \<and> rest \<noteq> [] \<and> hd rest \<noteq> [])"
      "\<not> (arg = ''--delay'' \<and> rest \<noteq> [] \<and> hd rest \<noteq> [])"
      "\<not> (arg = ''--start'' \<and> rest \<noteq> [] \<and> hd rest \<noteq> [])"
      "\<not> (arg = ''--end'' \<and> rest \<noteq> [] \<and> hd rest \<noteq> [])"
      "\<not> (arg = ''--format'' \<and> rest \<noteq> [] \<and> hd rest \<noteq> [])"
      "arg \<noteq> ''--resume''" "arg \<noteq> ''--no-resume''" "arg \<noteq> ''--force''"
      using that unfolding A1_def A2_def A3_def A4_def A5_def A6_def A7_def A8_def by blast+
    have eq: "parse_options (arg # rest) o2 = parse_options rest o2" for o2
      by (subst parse_options.simps) (simp only: n if_False)
    show ?thesis
      unfolding eq using "2.IH"(9) [OF n] .
  qed
  show ?case
    using out del sta en fm rs nr fo other by blast
qed

text \<open>
  C10. The parsed \<open>resume\<close> option changes nothing but one console line: for every run, with
  or without \<open>--force\<close>, the exit code, the counters, the accumulated chapters, every fetch
  and every write are the same whatever the value of the option; and putting \<open>--resume\<close> or
  \<open>--no-resume\<close> in front of the other options changes none of them either. In
  particular \<open>--no-resume\<close> does not make the crawler fetch the chapters that exist.
\<close>

theorem resume_option_is_ignored:
  "effects (main_run (opts\<lparr>resume := b\<rparr>) storyUrl en w) = effects (main_run opts storyUrl en w)
   \<and> (flag = ''--resume'' \<or> flag = ''--no-resume'' \<longrightarrow>
        effects (main (storyUrl # flag # args) en w) = effects (main (storyUrl # args) en w))"
proof (intro conjI impI)
  show "effects (main_run (opts\<lparr>resume := b\<rparr>) storyUrl en w) = effects (main_run opts storyUrl en w)"
    by (rule main_run_resume)
next
  assume flag: "flag = ''--resume'' \<or> flag = ''--no-resume''"
  then obtain b where p: "parse_options (flag # args) default_options =
      parse_options args (default_options\<lparr>resume := b\<rparr>)"
    by auto
  have fr: "map_sum id forget_resume (parse_options (flag # args) default_options) =
      map_sum id forget_resume (parse_options args default_options)"
    unfolding p by (rule parse_options_resume)
  have hlp: "(''--help'' \<in> set (storyUrl # flag # args)) = (''--help'' \<in> set (storyUrl # args))"
    using flag by auto
  show "effects (main (storyUrl # flag # args) en w) = effects (main (storyUrl # args) en w)"
  proof (cases "parse_options args default_options")
    case (Inl code)
    then have "parse_options (flag # args) default_options = Inl code"
      using fr by (cases "parse_options (flag # args) default_options") simp_all
    then show ?thesis
      using Inl hlp by (simp add: main_def effects_def)
  next
    case (Inr o2)
    then obtain o1 where o1: "parse_options (flag # args) default_options = Inr o1"
      and f: "forget_resume o1 = forget_resume o2"
      using fr by (cases "parse_options (flag # args) default_options") simp_all
    have "o1 = o2\<lparr>resume := resume o1\<rparr>"
      using f by (cases o1; cases o2) (simp add: forget_resume_def)
    then have "effects (main_run o1 storyUrl en w) = effects (main_run o2 storyUrl en w)"
      using main_run_resume [where opts = o2 and b = "resume o1"] by simp
    then show ?thesis
      using Inr o1 hlp by (simp add: main_def)
  qed
qed

text \<open>Witness for C10: chapter 1 is on disk from a first run; a second run with
  \<open>--no-resume\<close> fetches no chapter, like a second run without the flag.\<close>

theorem resume_option_is_ignored_witness:
  "effects (main [''https://truyenfull.vision/s'', ''--no-resume''] (site [''/s/chuong-1/''] [] [])
      (snd (main [''https://truyenfull.vision/s''] (site [''/s/chuong-1/''] [] []) empty_world))) =
   effects (main [''https://truyenfull.vision/s''] (site [''/s/chuong-1/''] [] [])
      (snd (main [''https://truyenfull.vision/s''] (site [''/s/chuong-1/''] [] []) empty_world)))
   \<and> drop 7 (trace (snd (main [''https://truyenfull.vision/s'', ''--no-resume'']
        (site [''/s/chuong-1/''] [] [])
        (snd (main [''https://truyenfull.vision/s''] (site [''/s/chuong-1/''] [] [])
           empty_world))))) =
       [Request ''https://truyenfull.vision/s'',
        WriteInfo ''s'' \<lparr>si_title = ''Story'', si_slug = ''s'',
                         si_url = ''https://truyenfull.vision/s'', si_totalPages = Some 1\<rparr>,
        Request ''https://truyenfull.vision/s'',
        Request ''https://truyenfull.vision/s#list-chapter'']"
proof -
  have "''--no-resume'' = ''--resume'' \<or> ''--no-resume'' = ''--no-resume''" by simp
  with resume_option_is_ignored [where flag = "''--no-resume''" and args = "[]"
      and storyUrl = "''https://truyenfull.vision/s''" and en = "site [''/s/chuong-1/''] [] []"
      and w = "snd (main [''https://truyenfull.vision/s''] (site [''/s/chuong-1/''] [] []) empty_world)"]
  have e: "effects (main [''https://truyenfull.vision/s'', ''--no-resume'']
      (site [''/s/chuong-1/''] [] [])
      (snd (main [''https://truyenfull.vision/s''] (site [''/s/chuong-1/''] [] []) empty_world))) =
   effects (main [''https://truyenfull.vision/s''] (site [''/s/chuong-1/''] [] [])
      (snd (main [''https://truyenfull.vision/s''] (site [''/s/chuong-1/''] [] []) empty_world)))"
    by blast
  then have "snd (main [''https://truyenfull.vision/s'', ''--no-resume'']
      (site [''/s/chuong-1/''] [] [])
      (snd (main [''https://truyenfull.vision/s''] (site [''/s/chuong-1/''] [] []) empty_world))) =
   snd (main [''https://truyenfull.vision/s''] (site [''/s/chuong-1/''] [] [])
      (snd (main [''https://truyenfull.vision/s''] (site [''/s/chuong-1/''] [] []) empty_world)))"
    by (simp add: effects_def)
  then show ?thesis
    using e resume_skips_when_slug_is_clean by simp
qed

subsection \<open>The final summary\<close>

lemma onChapterCrawled_savedCount:
  "savedCount (fst (snd (onChapterCrawled opts info ex en ch s w))) \<le> savedCount s + 1"
  by (auto simp: onChapterCrawled_def Let_def split: prod.splits sum.splits option.splits)

lemma onError_state: "fst (snd (onError opts info en ei s w)) = s"
  by (auto simp: onError_def split: prod.splits option.splits)

lemma crawl_loop_saved:
  "crawl_loop c en (onChapterCrawled opts info ex en) (onError opts info en) refs acc s w
     = (Inr chs, s', w') \<Longrightarrow>
   savedCount s' + length acc \<le> savedCount s + length chs"
proof (induction refs arbitrary: acc s w)
  case Nil
  then show ?case by simp
next
  case (Cons r rs)
  let ?onCh = "onChapterCrawled opts info ex en"
  let ?onErr = "onError opts info en"
  obtain rc w1 where rc: "getChapterContent c en (ref_url r) w = (rc, w1)"
    by (cases "getChapterContent c en (ref_url r) w")
  show ?case
  proof (cases rc)
    case (Inl e)
    let ?ei = "\<lparr>ei_chapter = r, ei_error = message e, ei_timestamp = clock en (reqs w1)\<rparr>"
    obtain re s2 w2 where re: "?onErr ?ei s w1 = (re, s2, w2)"
      by (cases "?onErr ?ei s w1")
    have s2: "s2 = s" using onError_state [of opts info en ?ei s w1] re by simp
    show ?thesis
    proof (cases re)
      case None
      then have "crawl_loop c en ?onCh ?onErr rs acc s2 w2 = (Inr chs, s', w')"
        using Cons.prems rc Inl re by simp
      from Cons.IH [OF this] show ?thesis using s2 by simp
    next
      case (Some e')
      then show ?thesis using Cons.prems rc Inl re by simp
    qed
  next
    case (Inr ch)
    obtain ro s2 w2 where ro: "?onCh ch s w1 = (ro, s2, w2)"
      by (cases "?onCh ch s w1")
    have s2: "savedCount s2 \<le> savedCount s + 1"
      using onChapterCrawled_savedCount [of opts info ex en ch s w1] ro by simp
    show ?thesis
    proof (cases ro)
      case None
      then have "crawl_loop c en ?onCh ?onErr rs (acc @ [ch]) s2
           (if rs \<noteq> [] then delay (delay_ms c) w2 else w2) = (Inr chs, s', w')"
        using Cons.prems rc Inr ro by simp
      from Cons.IH [OF this] show ?thesis using s2 by simp
    next
      case (Some e)
      let ?ei = "\<lparr>ei_chapter = r, ei_error = message e, ei_timestamp = clock en (reqs w2)\<rparr>"
      obtain re s3 w3 where re: "?onErr ?ei s2 w2 = (re, s3, w3)"
        by (cases "?onErr ?ei s2 w2")
      have s3: "s3 = s2" using onError_state [of opts info en ?ei s2 w2] re by simp
      show ?thesis
      proof (cases re)
        case None
        then have "crawl_loop c en ?onCh ?onErr rs (acc @ [ch]) s3 w3 = (Inr chs, s', w')"
          using Cons.prems rc Inr ro Some re by simp
        from Cons.IH [OF this] show ?thesis using s2 s3 by simp
      next
        case (Some e')
        then show ?thesis using Cons.prems rc Inr ro \<open>ro = Some e\<close> re by simp
      qed
    qed
  qed
qed

lemma crawlStory_saved:
  assumes "crawlStory c en u st e (onChapterCrawled opts info ex en) (onError opts info en) exs s w
             = (Inr result, s', w')"
  shows "savedCount s' \<le> savedCount s + length (snd result)"
proof -
  obtain r w1 where r: "getAllChapters c en u w = (r, w1)"
    by (cases "getAllChapters c en u w")
  show ?thesis
  proof (cases r)
    case (Inl err)
    then show ?thesis using assms r by (simp add: crawlStory_def)
  next
    case (Inr ic)
    obtain i chapters where ic: "ic = (i, chapters)" by (cases ic)
    let ?refs = "resume_filter exs (range_filter st e chapters)"
    obtain r2 s2 w2 where r2: "crawl_loop c en (onChapterCrawled opts info ex en)
        (onError opts info en) ?refs [] s w1 = (r2, s2, w2)"
      by (cases "crawl_loop c en (onChapterCrawled opts info ex en) (onError opts info en)
            ?refs [] s w1")
    show ?thesis
    proof (cases r2)
      case (Inl err)
      then show ?thesis using assms r Inr ic r2 by (simp add: crawlStory_def)
    next
      case (Inr chs)
      then have "result = (i, chs)" and "s' = s2"
        using assms r \<open>r = Inr ic\<close> ic r2 by (simp_all add: crawlStory_def)
      then show ?thesis
        using crawl_loop_saved [OF r2 [unfolded Inr]] by simp
    qed
  qed
qed

text \<open>
  The chapter files written and the records logged, followed through the run: only a
  successful \<open>saveChapter\<close> writes a chapter file, and it is counted in \<open>savedCount\<close>; only a
  successful \<open>onError\<close> appends a record. The chapters that \<open>crawlStory\<close> returns are those of
  the references it goes through whose page could be fetched.
\<close>

lemma quiet_extends:
  assumes "extends (\<lambda>e. \<not> is_WriteChapter e \<and> \<not> is_AppendLog e) w w'"
  shows "chapters_written w' = chapters_written w \<and> records_logged w' = records_logged w"
proof -
  obtain es where es: "trace w' = trace w @ es"
      "list_all (\<lambda>e. \<not> is_WriteChapter e \<and> \<not> is_AppendLog e) es"
    using assms by (auto simp: extends_def)
  have "filter is_WriteChapter es = []" and "filter is_AppendLog es = []"
    using es(2) by (simp_all add: list_all_iff filter_empty_conv)
  then show ?thesis
    using es(1) by (simp add: chapters_written_def records_logged_def)
qed

lemma quiet_delay:
  "chapters_written (delay d w) = chapters_written w \<and> records_logged (delay d w) = records_logged w"
  by (simp add: delay_def emit_def chapters_written_def records_logged_def
        is_WriteChapter_def is_AppendLog_def)

lemma getChapterContent_quiet:
  "chapters_written (snd (getChapterContent c en u w)) = chapters_written w
   \<and> records_logged (snd (getChapterContent c en u w)) = records_logged w"
  by (rule quiet_extends, rule getChapterContent_extends)
     (simp_all add: is_WriteChapter_def is_AppendLog_def)

lemma getAllChapters_quiet:
  "chapters_written (snd (getAllChapters c en u w)) = chapters_written w
   \<and> records_logged (snd (getAllChapters c en u w)) = records_logged w"
  by (rule quiet_extends, rule getAllChapters_extends)
     (simp_all add: is_WriteChapter_def is_AppendLog_def)

lemma getStoryInfo_quiet:
  "chapters_written (snd (getStoryInfo c en u w)) = chapters_written w
   \<and> records_logged (snd (getStoryInfo c en u w)) = records_logged w"
  by (rule quiet_extends, rule getStoryInfo_extends)
     (simp_all add: is_WriteChapter_def is_AppendLog_def)

lemma saveStoryInfo_quiet:
  "chapters_written (snd (saveStoryInfo en info w)) = chapters_written w
   \<and> records_logged (snd (saveStoryInfo en info w)) = records_logged w"
  by (rule quiet_extends, rule saveStoryInfo_extends)
     (simp_all add: is_WriteChapter_def is_AppendLog_def)

lemma updateStoryJson_quiet:
  "chapters_written (snd (updateStoryJson en info chs w)) = chapters_written w
   \<and> records_logged (snd (updateStoryJson en info chs w)) = records_logged w"
  by (rule quiet_extends, rule updateStoryJson_extends)
     (simp_all add: is_WriteChapter_def is_AppendLog_def)

lemma saveChapter_written:
  "chapters_written (snd (saveChapter en ch slug fmt w)) =
     chapters_written w + (case fst (saveChapter en ch slug fmt w) of Inl e \<Rightarrow> 0 | Inr p \<Rightarrow> 1)
   \<and> records_logged (snd (saveChapter en ch slug fmt w)) = records_logged w"
  by (auto simp: saveChapter_def io_def Let_def emit_def chapters_written_def records_logged_def
        is_WriteChapter_def is_AppendLog_def split: prod.splits sum.splits option.splits)

lemma onChapterCrawled_counts:
  assumes "onChapterCrawled opts info ex en ch s w = (r, s', w')"
  shows "chapters_written w' + savedCount s = chapters_written w + savedCount s'
       \<and> records_logged w' = records_logged w"
proof (cases "\<not> force opts \<and> (case ch_number ch of None \<Rightarrow> False | Some n \<Rightarrow> n \<in> set ex)")
  case True
  define s2 where "s2 =
    (if find (\<lambda>c. ch_number c = ch_number ch) (allCrawledChapters s) = None
     then s\<lparr>skippedCount := skippedCount s + 1,
            allCrawledChapters := allCrawledChapters s @ [ch]\<rparr>
     else s\<lparr>skippedCount := skippedCount s + 1\<rparr>)"
  have sv: "savedCount s2 = savedCount s"
    by (simp add: s2_def)
  have "onChapterCrawled opts info ex en ch s w =
      (case updateStoryJson en info (allCrawledChapters s2) w of (r, w1) \<Rightarrow> (r, s2, w1))"
    using True by (simp add: onChapterCrawled_def Let_def s2_def)
  then have "s' = s2" and "w' = snd (updateStoryJson en info (allCrawledChapters s2) w)"
    using assms by (auto split: prod.splits)
  then show ?thesis
    using sv updateStoryJson_quiet [of en info "allCrawledChapters s2" w] by simp
next
  case False
  then have nb: "(\<not> force opts \<and> (case ch_number ch of None \<Rightarrow> False | Some n \<Rightarrow> n \<in> set ex)) = False"
    by simp
  obtain r1 w1 where r1: "saveChapter en ch (si_slug info) (format opts) w = (r1, w1)"
    by (cases "saveChapter en ch (si_slug info) (format opts) w")
  note sw = saveChapter_written [of en ch "si_slug info" "format opts" w, unfolded r1, simplified]
  show ?thesis
  proof (cases r1)
    case (Inl e)
    then show ?thesis
      using assms r1 sw by (auto simp: onChapterCrawled_def nb)
  next
    case (Inr saved)
    obtain r2 w2 where r2: "updateStoryJson en info (allCrawledChapters s @ [ch]) w1 = (r2, w2)"
      by (cases "updateStoryJson en info (allCrawledChapters s @ [ch]) w1")
    note uq = updateStoryJson_quiet [of en info "allCrawledChapters s @ [ch]" w1, unfolded r2, simplified]
    show ?thesis
      using assms r1 Inr r2 sw uq by (cases r2) (auto simp: onChapterCrawled_def nb Let_def)
  qed
qed

lemma onError_counts:
  assumes "onError opts info en ei s w = (r, s', w')"
  shows "s' = s \<and> chapters_written w' = chapters_written w
       \<and> (r = None \<longrightarrow> records_logged w' = records_logged w + 1)"
  using assms
  by (auto simp: onError_def io_def Let_def emit_def chapters_written_def records_logged_def
        is_WriteChapter_def is_AppendLog_def split: prod.splits option.splits)

lemma getChapterContent_url:
  "getChapterContent c en u w = (Inr ch, w') \<Longrightarrow> ch_url ch = u"
  by (auto simp: getChapterContent_def Let_def split: prod.splits sum.splits)

lemma crawl_loop_subseq:
  "crawl_loop c en onCh onErr refs acc s w = (Inr chs, s', w') \<Longrightarrow>
     \<exists>got. chs = acc @ got \<and> subseq (map ch_url got) (map ref_url refs)"
proof (induction refs arbitrary: acc s w)
  case Nil
  then show ?case by simp
next
  case (Cons r rs)
  obtain rc w1 where rc: "getChapterContent c en (ref_url r) w = (rc, w1)"
    by (cases "getChapterContent c en (ref_url r) w")
  show ?case
  proof (cases rc)
    case (Inl e)
    let ?ei = "\<lparr>ei_chapter = r, ei_error = message e, ei_timestamp = clock en (reqs w1)\<rparr>"
    obtain re s2 w2 where re: "onErr ?ei s w1 = (re, s2, w2)"
      by (cases "onErr ?ei s w1")
    show ?thesis
    proof (cases re)
      case None
      then have "crawl_loop c en onCh onErr rs acc s2 w2 = (Inr chs, s', w')"
        using Cons.prems rc Inl re by simp
      from Cons.IH [OF this] obtain got where
        "chs = acc @ got" "subseq (map ch_url got) (map ref_url rs)"
        by blast
      then show ?thesis by (auto intro: list_emb_Cons)
    next
      case (Some e')
      then show ?thesis using Cons.prems rc Inl re by simp
    qed
  next
    case (Inr ch)
    have url: "ch_url ch = ref_url r"
      using getChapterContent_url rc Inr by blast
    obtain ro s2 w2 where ro: "onCh ch s w1 = (ro, s2, w2)"
      by (cases "onCh ch s w1")
    have step: "\<exists>got. chs = acc @ got \<and> subseq (map ch_url got) (map ref_url (r # rs))"
      if "crawl_loop c en onCh onErr rs (acc @ [ch]) s3 w3 = (Inr chs, s', w')" for s3 w3
    proof -
      from Cons.IH [OF that] obtain got where
        got: "chs = (acc @ [ch]) @ got" "subseq (map ch_url got) (map ref_url rs)"
        by blast
      have "chs = acc @ (ch # got)" using got(1) by simp
      moreover have "subseq (map ch_url (ch # got)) (map ref_url (r # rs))"
        using got(2) url by simp
      ultimately show ?thesis by blast
    qed
    show ?thesis
    proof (cases ro)
      case None
      then have "crawl_loop c en onCh onErr rs (acc @ [ch]) s2
           (if rs \<noteq> [] then delay (delay_ms c) w2 else w2) = (Inr chs, s', w')"
        using Cons.prems rc Inr ro by simp
      then show ?thesis by (rule step)
    next
      case (Some e)
      let ?ei = "\<lparr>ei_chapter = r, ei_error = message e, ei_timestamp = clock en (reqs w2)\<rparr>"
      obtain re s3 w3 where re: "onErr ?ei s2 w2 = (re, s3, w3)"
        by (cases "onErr ?ei s2 w2")
      show ?thesis
      proof (cases re)
        case None
        then have "crawl_loop c en onCh onErr rs (acc @ [ch]) s3 w3 = (Inr chs, s', w')"
          using Cons.prems rc Inr ro Some re by simp
        then show ?thesis by (rule step)
      next
        case (Some e')
        then show ?thesis using Cons.prems rc Inr ro \<open>ro = Some e\<close> re by simp
      qed
    qed
  qed
qed

lemma crawl_loop_counts:
  "crawl_loop c en (onChapterCrawled opts info ex en) (onError opts info en) refs acc s w
     = (Inr chs, s', w') \<Longrightarrow>
   chapters_written w' + savedCount s = chapters_written w + savedCount s'
   \<and> length refs + length acc + records_logged w \<le> length chs + records_logged w'"
proof (induction refs arbitrary: acc s w)
  case Nil
  then show ?case by simp
next
  case (Cons r rs)
  let ?onCh = "onChapterCrawled opts info ex en"
  let ?onErr = "onError opts info en"
  obtain rc w1 where rc: "getChapterContent c en (ref_url r) w = (rc, w1)"
    by (cases "getChapterContent c en (ref_url r) w")
  have q1: "chapters_written w1 = chapters_written w" "records_logged w1 = records_logged w"
    using getChapterContent_quiet [of c en "ref_url r" w] rc by simp_all
  show ?case
  proof (cases rc)
    case (Inl e)
    let ?ei = "\<lparr>ei_chapter = r, ei_error = message e, ei_timestamp = clock en (reqs w1)\<rparr>"
    obtain re s2 w2 where re: "?onErr ?ei s w1 = (re, s2, w2)"
      by (cases "?onErr ?ei s w1")
    note oe = onError_counts [OF re]
    show ?thesis
    proof (cases re)
      case None
      then have "crawl_loop c en ?onCh ?onErr rs acc s2 w2 = (Inr chs, s', w')"
        using Cons.prems rc Inl re by simp
      from Cons.IH [OF this] show ?thesis using oe None q1 by simp
    next
      case (Some e')
      then show ?thesis using Cons.prems rc Inl re by simp
    qed
  next
    case (Inr ch)
    obtain ro s2 w2 where ro: "?onCh ch s w1 = (ro, s2, w2)"
      by (cases "?onCh ch s w1")
    note oc = onChapterCrawled_counts [OF ro]
    show ?thesis
    proof (cases ro)
      case None
      let ?w3 = "if rs \<noteq> [] then delay (delay_ms c) w2 else w2"
      have q3: "chapters_written ?w3 = chapters_written w2" "records_logged ?w3 = records_logged w2"
        using quiet_delay [of "delay_ms c" w2] by simp_all
      have "crawl_loop c en ?onCh ?onErr rs (acc @ [ch]) s2 ?w3 = (Inr chs, s', w')"
        using Cons.prems rc Inr ro None by simp
      from Cons.IH [OF this] show ?thesis using oc q1 q3 by simp
    next
      case (Some e)
      let ?ei = "\<lparr>ei_chapter = r, ei_error = message e, ei_timestamp = clock en (reqs w2)\<rparr>"
      obtain re s3 w3 where re: "?onErr ?ei s2 w2 = (re, s3, w3)"
        by (cases "?onErr ?ei s2 w2")
      note oe = onError_counts [OF re]
      show ?thesis
      proof (cases re)
        case None
        then have "crawl_loop c en ?onCh ?onErr rs (acc @ [ch]) s3 w3 = (Inr chs, s', w')"
          using Cons.prems rc Inr ro Some re by simp
        from Cons.IH [OF this] show ?thesis using oc oe None q1 by simp
      next
        case (Some e')
        then show ?thesis using Cons.prems rc Inr ro \<open>ro = Some e\<close> re by simp
      qed
    qed
  qed
qed

lemma main_crawl_counts:
  assumes "main_crawl opts storyUrl en info w = (Inr (info2, chapters), s', w')"
  shows "\<exists>listing w1.
           getAllChapters (TruyenFullCrawler (opt_delay opts) (Some 3) (Some 30000)) en storyUrl w
             = (Inr (info2, listing), w1)
         \<and> subseq (map ch_url chapters) (map ref_url (main_refs opts info w listing))
         \<and> length (main_refs opts info w listing) + records_logged w
             \<le> length chapters + records_logged w'
         \<and> chapters_written w' = chapters_written w + savedCount s'"
proof -
  let ?c = "TruyenFullCrawler (opt_delay opts) (Some 3) (Some 30000)"
  obtain r w1 where r: "getAllChapters ?c en storyUrl w = (r, w1)"
    by (cases "getAllChapters ?c en storyUrl w")
  have q: "chapters_written w1 = chapters_written w" "records_logged w1 = records_logged w"
    using getAllChapters_quiet [of ?c en storyUrl w] r by simp_all
  show ?thesis
  proof (cases r)
    case (Inl e)
    then show ?thesis using assms r by (simp add: main_crawl_def crawlStory_def)
  next
    case (Inr il)
    obtain i listing where il: "il = (i, listing)" by (cases il)
    let ?refs = "main_refs opts info w listing"
    let ?loop = "crawl_loop ?c en (onChapterCrawled opts info (main_existing opts info w) en)
        (onError opts info en) ?refs [] (main_initial opts info w) w1"
    obtain r2 s2 w2 where r2: "?loop = (r2, s2, w2)"
      by (cases ?loop)
    have cs: "main_crawl opts storyUrl en info w =
        (case r2 of Inl e \<Rightarrow> (Inl (Error (''Failed to crawl story: '' @ message e)), s2, w2)
                  | Inr chs \<Rightarrow> (Inr (i, chs), s2, w2))"
      using r Inr il r2 by (simp add: main_crawl_def crawlStory_def main_refs_def split: sum.splits)
    then obtain chs where chs: "r2 = Inr chs"
      using assms by (cases r2) simp_all
    then have eq: "info2 = i" "chapters = chs" "s' = s2" "w' = w2"
      using assms cs by simp_all
    from crawl_loop_subseq [OF r2 [unfolded chs]]
    have a: "subseq (map ch_url chs) (map ref_url ?refs)" by simp
    from crawl_loop_counts [OF r2 [unfolded chs]]
    have b: "chapters_written w2 + savedCount (main_initial opts info w)
               = chapters_written w1 + savedCount s2"
      and c: "length ?refs + length ([] :: chap list) + records_logged w1
               \<le> length chs + records_logged w2"
      by simp_all
    have "getAllChapters ?c en storyUrl w = (Inr (info2, listing), w1)"
      using r Inr il eq(1) by simp
    moreover have "subseq (map ch_url chapters) (map ref_url ?refs)" using a eq by simp
    moreover have "length ?refs + records_logged w \<le> length chapters + records_logged w'"
      using c q eq by simp
    moreover have "chapters_written w' = chapters_written w + savedCount s'"
      using b q eq by (simp add: main_initial_def)
    ultimately show ?thesis by blast
  qed
qed

text \<open>
  C2, as amended. When a run reaches its end (exit code 0), let \<open>info\<close> be the story
  information \<open>main\<close> has read and saved, \<open>listing\<close> the sorted listing that \<open>crawlStory\<close> then
  reads, and \<open>chapters\<close> the chapters \<open>crawlStory\<close> returns. The chapters are among the
  references left by the range and resume filters, in their order, and every such reference
  is either among them or has a record appended to \<open>errors.log\<close>. The lines printed after
  the note on existing chapters are exactly: the number of these chapters as the chapters
  crawled; the number of chapters saved, which is the number of chapter files written in
  the run and at most the number crawled; and, only when it is positive, the skipped count,
  which is the number of chapter numbers that \<open>getExistingChapters\<close> finds at the end in the
  directory named by the slug as extracted (not sanitized), less the number saved. No count
  of failed chapters is printed.
\<close>

theorem final_summary_counts:
  assumes "fst (main_run opts storyUrl en w) = (0, out, Some s)"
  shows "\<exists>info w1 w2 info2 listing chapters.
           getStoryInfo (TruyenFullCrawler (opt_delay opts) (Some 3) (Some 30000)) en storyUrl w
             = (Inr info, w1)
         \<and> saveStoryInfo en info w1 = (None, w2)
         \<and> fst (getAllChapters (TruyenFullCrawler (opt_delay opts) (Some 3) (Some 30000)) en
                  storyUrl w2) = Inr (info2, listing)
         \<and> main_crawl opts storyUrl en info w2
             = (Inr (info2, chapters), s, snd (main_run opts storyUrl en w))
         \<and> subseq (map ch_url chapters) (map ref_url (main_refs opts info w2 listing))
         \<and> length (main_refs opts info w2 listing) + records_logged w
             \<le> length chapters + records_logged (snd (main_run opts storyUrl en w))
         \<and> chapters_written (snd (main_run opts storyUrl en w))
             = chapters_written w + savedCount s
         \<and> savedCount s \<le> length chapters
         \<and> out = main_found opts info w2 @
             [''Crawling completed!'',
              ''Total chapters crawled: '' @ show_nat (length chapters),
              ''Chapters saved: '' @ show_nat (savedCount s)] @
             (if int (length (getExistingChapters (si_slug info) (format opts)
                        (snd (main_run opts storyUrl en w)))) - int (savedCount s) > 0
              then [''Chapters skipped (already existed): '' @
                    show_int (int (length (getExistingChapters (si_slug info) (format opts)
                        (snd (main_run opts storyUrl en w)))) - int (savedCount s))]
              else []) @
             [''Done!'']"
proof -
  let ?c = "TruyenFullCrawler (opt_delay opts) (Some 3) (Some 30000)"
  have reached: "snd (snd (fst (main_run opts storyUrl en w))) = Some s"
    using assms by simp
  from main_run_not_reached [OF reached] obtain info w1 w2 where
    g1: "getStoryInfo ?c en storyUrl w = (Inr info, w1)" and
    g2: "saveStoryInfo en info w1 = (None, w2)"
    by blast
  obtain r3 s3 w3 where r3: "main_crawl opts storyUrl en info w2 = (r3, s3, w3)"
    by (cases "main_crawl opts storyUrl en info w2")
  note run = main_run_reached [OF g1 g2 r3 [unfolded main_crawl_def]]
  obtain result where res: "r3 = Inr result"
    using assms run by (cases r3) simp_all
  obtain info2 chapters where ic: "result = (info2, chapters)" by (cases result)
  have s: "s = s3" and w3: "snd (main_run opts storyUrl en w) = w3"
    and out: "out = main_found opts info w2 @
        final_summary (length chapters) (savedCount s3)
          (length (getExistingChapters (si_slug info) (format opts) w3))"
    using assms run res ic by auto
  have mc: "main_crawl opts storyUrl en info w2 = (Inr (info2, chapters), s3, w3)"
    using r3 res ic by simp
  from main_crawl_counts [OF mc] obtain listing w2' where
    l1: "getAllChapters ?c en storyUrl w2 = (Inr (info2, listing), w2')" and
    l2: "subseq (map ch_url chapters) (map ref_url (main_refs opts info w2 listing))" and
    l3: "length (main_refs opts info w2 listing) + records_logged w2
           \<le> length chapters + records_logged w3" and
    l4: "chapters_written w3 = chapters_written w2 + savedCount s3"
    by blast
  have q1: "chapters_written w1 = chapters_written w" "records_logged w1 = records_logged w"
    using getStoryInfo_quiet [of ?c en storyUrl w] g1 by simp_all
  have q2: "chapters_written w2 = chapters_written w1" "records_logged w2 = records_logged w1"
    using saveStoryInfo_quiet [of en info w1] g2 by simp_all
  have "savedCount s3 \<le> savedCount (main_initial opts info w2) + length (snd result)"
    using crawlStory_saved [OF r3 [unfolded res main_crawl_def]] .
  then have le: "savedCount s \<le> length chapters"
    using s ic by (simp add: main_initial_def)
  have c3: "fst (getAllChapters ?c en storyUrl w2) = Inr (info2, listing)"
    using l1 by simp
  have c4: "main_crawl opts storyUrl en info w2
             = (Inr (info2, chapters), s, snd (main_run opts storyUrl en w))"
    using mc s w3 by simp
  have c6: "length (main_refs opts info w2 listing) + records_logged w
             \<le> length chapters + records_logged (snd (main_run opts storyUrl en w))"
    using l3 q1 q2 w3 by simp
  have c7: "chapters_written (snd (main_run opts storyUrl en w)) = chapters_written w + savedCount s"
    using l4 q1 q2 w3 s by simp
  have c9: "out = main_found opts info w2 @
             [''Crawling completed!'',
              ''Total chapters crawled: '' @ show_nat (length chapters),
              ''Chapters saved: '' @ show_nat (savedCount s)] @
             (if int (length (getExistingChapters (si_slug info) (format opts)
                        (snd (main_run opts storyUrl en w)))) - int (savedCount s) > 0
              then [''Chapters skipped (already existed): '' @
                    show_int (int (length (getExistingChapters (si_slug info) (format opts)
                        (snd (main_run opts storyUrl en w)))) - int (savedCount s))]
              else []) @
             [''Done!'']"
    using out s w3 unfolding final_summary_def by simp
  show ?thesis
    using g1 g2 c3 c4 l2 c6 c7 le c9 by blast
qed

text \<open>Witness for C2 as amended: three chapters listed, chapter 2 unreachable.\<close>

theorem final_summary_counts_witness:
  "fst (main_run default_options ''https://truyenfull.vision/s''
      (site [''/s/chuong-1/'', ''/s/chuong-2/'', ''/s/chuong-3/'']
         [''https://truyenfull.vision/s/chuong-2/''] []) empty_world) =
     (0, [''Crawling completed!'', ''Total chapters crawled: 2'', ''Chapters saved: 2'',
          ''Done!''],
      Some \<lparr>savedCount = 2, skippedCount = 0,
            allCrawledChapters =
              [\<lparr>ch_number = Some 1, ch_title = ''Chapter'',
                ch_url = ''https://truyenfull.vision/s/chuong-1/'', ch_body_text = ''body'',
                ch_body_html = ''body'', ch_order = None\<rparr>,
               \<lparr>ch_number = Some 3, ch_title = ''Chapter'',
                ch_url = ''https://truyenfull.vision/s/chuong-3/'', ch_body_text = ''body'',
                ch_body_html = ''body'', ch_order = None\<rparr>],
            saveErrors = []\<rparr>)
   \<and> chapters_written (snd (main_run default_options ''https://truyenfull.vision/s''
        (site [''/s/chuong-1/'', ''/s/chuong-2/'', ''/s/chuong-3/'']
           [''https://truyenfull.vision/s/chuong-2/''] []) empty_world)) = 2
   \<and> (\<exists>chapters :: chap list. 2 \<le> length chapters
         \<and> subseq (map ch_url chapters)
             [''https://truyenfull.vision/s/chuong-1/'', ''https://truyenfull.vision/s/chuong-2/'',
              ''https://truyenfull.vision/s/chuong-3/''])"
proof -
  let ?en = "site [''/s/chuong-1/'', ''/s/chuong-2/'', ''/s/chuong-3/'']
         [''https://truyenfull.vision/s/chuong-2/''] []"
  let ?c = "TruyenFullCrawler (opt_delay default_options) (Some 3) (Some 30000)"
  let ?s = "\<lparr>savedCount = 2, skippedCount = 0,
            allCrawledChapters =
              [\<lparr>ch_number = Some 1, ch_title = ''Chapter'',
                ch_url = ''https://truyenfull.vision/s/chuong-1/'', ch_body_text = ''body'',
                ch_body_html = ''body'', ch_order = None\<rparr>,
               \<lparr>ch_number = Some 3, ch_title = ''Chapter'',
                ch_url = ''https://truyenfull.vision/s/chuong-3/'', ch_body_text = ''body'',
                ch_body_html = ''body'', ch_order = None\<rparr>],
            saveErrors = []\<rparr>"
  let ?info = "\<lparr>si_title = ''Story'', si_slug = ''s'', si_url = ''https://truyenfull.vision/s'',
            si_totalPages = Some 1\<rparr>"
  have h: "fst (main_run default_options ''https://truyenfull.vision/s'' ?en empty_world) =
     (0, [''Crawling completed!'', ''Total chapters crawled: 2'', ''Chapters saved: 2'',
          ''Done!''], Some ?s)"
    by (simp add: run_defs)
  from final_summary_counts [OF h] obtain info w1 w2 info2 listing and chapters :: "chap list" where
    g1: "getStoryInfo ?c ?en ''https://truyenfull.vision/s'' empty_world = (Inr info, w1)" and
    g2: "saveStoryInfo ?en info w1 = (None, w2)" and
    g3: "fst (getAllChapters ?c ?en ''https://truyenfull.vision/s'' w2) = Inr (info2, listing)" and
    sub: "subseq (map ch_url chapters) (map ref_url (main_refs default_options info w2 listing))" and
    wr: "chapters_written (snd (main_run default_options ''https://truyenfull.vision/s'' ?en
            empty_world)) = chapters_written empty_world + savedCount ?s" and
    le: "savedCount ?s \<le> length chapters"
    by blast
  have info: "info = ?info"
    and w1: "w1 = empty_world\<lparr>reqs := 1, trace := [Request ''https://truyenfull.vision/s'']\<rparr>"
    using g1 by (simp_all add: run_defs)
  have w2: "w2 = empty_world\<lparr>reqs := 1, ios := 2,
               trace := [Request ''https://truyenfull.vision/s'', WriteInfo ''s'' ?info],
               info_json := (info_json empty_world)(''s'' := Some ?info)\<rparr>"
    using g2 unfolding info w1 by (auto simp: run_defs numeral_2_eq_2)
  have listing: "map ref_url listing =
      [''https://truyenfull.vision/s/chuong-1/'', ''https://truyenfull.vision/s/chuong-2/'',
       ''https://truyenfull.vision/s/chuong-3/'']"
    using g3 unfolding w2 by (auto simp: run_defs)
  have "main_refs default_options info w2 listing = listing"
    unfolding info w2
    by (simp add: main_refs_def main_existing_def run_defs)
  then have "subseq (map ch_url chapters)
             [''https://truyenfull.vision/s/chuong-1/'', ''https://truyenfull.vision/s/chuong-2/'',
              ''https://truyenfull.vision/s/chuong-3/'']"
    using sub listing by simp
  moreover have "chapters_written (snd (main_run default_options ''https://truyenfull.vision/s''
        ?en empty_world)) = 2"
    using wr by (simp add: chapters_written_def empty_world_def)
  moreover have "2 \<le> length chapters" using le by simp
  ultimately show ?thesis using h by blast
qed

text \<open>
  The skipped count is read from the directory named by the unsanitized slug. A first run
  saves chapters 1 and 2 and a second run is restricted to chapter 2. With the slug \<open>http:\<close>
  the store \<open>http_\<close> holds both files, the directory \<open>http:\<close> does not exist, chapter 2 is
  fetched and saved again and no skipped line is printed. With the slug \<open>s\<close> nothing is
  fetched, and the skipped count is 2, the number of files, although one chapter was in
  range.
\<close>

lemma summary_skipped_count_reads_slug_directory:
  "console (main [''http://truyenfull.vision/s'', ''--start'', ''2'', ''--end'', ''2'']
      (site [''/s/chuong-1/'', ''/s/chuong-2/''] [] [])
      (snd (main [''http://truyenfull.vision/s''] (site [''/s/chuong-1/'', ''/s/chuong-2/''] [] [])
         empty_world))) =
     [''Crawling completed!'', ''Total chapters crawled: 1'', ''Chapters saved: 1'', ''Done!'']
   \<and> map_option (map fst)
       (chapter_store
          (snd (main [''http://truyenfull.vision/s'', ''--start'', ''2'', ''--end'', ''2'']
             (site [''/s/chuong-1/'', ''/s/chuong-2/''] [] [])
             (snd (main [''http://truyenfull.vision/s'']
                (site [''/s/chuong-1/'', ''/s/chuong-2/''] [] []) empty_world)))) ''http_'') =
       Some [''chapter-00001.json'', ''chapter-00002.json'']
   \<and> console (main [''https://truyenfull.vision/s'', ''--start'', ''2'', ''--end'', ''2'']
      (site [''/s/chuong-1/'', ''/s/chuong-2/''] [] [])
      (snd (main [''https://truyenfull.vision/s''] (site [''/s/chuong-1/'', ''/s/chuong-2/''] [] [])
         empty_world))) =
     [''Found 2 existing chapters. Will skip them.'',
      ''Crawling completed!'', ''Total chapters crawled: 0'', ''Chapters saved: 0'',
      ''Chapters skipped (already existed): 2'', ''Done!'']"
  by (simp add: run_defs)

subsection \<open>The resume filter and the manifest\<close>

text \<open>
  The filter of \<open>crawlStory\<close> itself does what C7 says of it: with a set of existing numbers,
  no reference whose number is in the set is left to crawl, every reference without a
  number that passed the range filter is kept, and the chapter loop requests the pages of
  the kept references only.
\<close>

lemma resume_filter_drops_existing:
  assumes "r \<in> set (resume_filter (Some existing) refs)" and "ref_number r = Some n"
  shows "n \<notin> set existing"
  using assms by (auto simp: resume_filter_def not_existing_def split: if_splits)

lemma resume_filter_keeps_numberless:
  assumes "r \<in> set refs" and "ref_number r = None"
  shows "r \<in> set (resume_filter ex (range_filter st e refs))"
  using assms
  by (auto simp: resume_filter_def range_filter_def not_existing_def in_range_def
           split: option.splits)

lemma crawl_loop_requests_kept_only:
  assumes "crawl_loop c en (onChapterCrawled opts info ex en) (onError opts info en) refs acc s w
             = (r, s', w')"
  shows "\<exists>es. trace w' = trace w @ es \<and>
              (\<forall>u. Request u \<in> set es \<longrightarrow> u \<in> ref_url ` set refs)"
proof -
  let ?P = "\<lambda>e. case e of Request u \<Rightarrow> u \<in> ref_url ` set refs | _ \<Rightarrow> True"
  have "extends ?P w (snd (snd (crawl_loop c en (onChapterCrawled opts info ex en)
          (onError opts info en) refs acc s w)))"
    by (rule crawl_loop_extends)
       (simp_all add: onChapterCrawled_extends_all onError_extends_all)
  then obtain es where es: "trace w' = trace w @ es" "list_all ?P es"
    using assms by (auto simp: extends_def)
  have "\<forall>u. Request u \<in> set es \<longrightarrow> u \<in> ref_url ` set refs"
    using es(2) by (auto simp: list_all_iff split: event.splits)
  then show ?thesis using es(1) by blast
qed

text \<open>
  The manifest that \<open>updateStoryJson\<close> writes is a permutation of the accumulated chapters'
  metadata, in the order of its comparator: chapters with a number first, by ascending
  number, then the chapters without one, by ascending \<open>order\<close> (\<open>0\<close> when missing). A
  successful save puts the chapter into the accumulator and the manifest. Nothing removes
  an entry whose number is there already.
\<close>

lemma sorted_wrt_insert_by:
  assumes "\<forall>a b c. cmp a b \<le> 0 \<longrightarrow> cmp b c \<le> 0 \<longrightarrow> cmp a c \<le> (0::int)"
    and "\<forall>a b. cmp a b \<le> 0 \<or> cmp b a \<le> 0"
    and "sorted_wrt (\<lambda>a b. cmp a b \<le> 0) ys"
  shows "sorted_wrt (\<lambda>a b. cmp a b \<le> 0) (insert_by cmp x ys)"
  using assms(3)
proof (induction ys)
  case Nil
  then show ?case by simp
next
  case (Cons y ys)
  show ?case
  proof (cases "cmp x y \<le> 0")
    case True
    then have "\<forall>z\<in>set ys. cmp x z \<le> 0"
      using Cons.prems assms(1) by auto
    then show ?thesis using True Cons.prems by simp
  next
    case False
    then have "cmp y x \<le> 0" using assms(2) by blast
    then show ?thesis
      using False Cons by (auto simp: set_insert_by)
  qed
qed

lemma sorted_wrt_js_sort:
  assumes "\<forall>a b c. cmp a b \<le> 0 \<longrightarrow> cmp b c \<le> 0 \<longrightarrow> cmp a c \<le> (0::int)"
    and "\<forall>a b. cmp a b \<le> 0 \<or> cmp b a \<le> 0"
  shows "sorted_wrt (\<lambda>a b. cmp a b \<le> 0) (js_sort cmp xs)"
proof (induction xs)
  case Nil
  then show ?case by (simp add: js_sort_def)
next
  case (Cons x xs)
  then show ?case
    using sorted_wrt_insert_by [OF assms, of "js_sort cmp xs" x] by (simp add: js_sort_def)
qed

lemma compare_chapters_consistent:
  "compare_chapters a b \<le> 0 \<Longrightarrow> compare_chapters b c \<le> 0 \<Longrightarrow> compare_chapters a c \<le> 0"
  "compare_chapters a b \<le> 0 \<or> compare_chapters b a \<le> 0"
  by (auto simp: compare_chapters_def split: option.splits)

lemma manifest_sorted:
  "sorted_wrt (\<lambda>a b. compare_chapters a b \<le> 0) (js_sort compare_chapters allChapters)"
  "mset (manifest_of allChapters) = image_mset metadata (mset allChapters)"
proof -
  show "sorted_wrt (\<lambda>a b. compare_chapters a b \<le> 0) (js_sort compare_chapters allChapters)"
    by (rule sorted_wrt_js_sort) (use compare_chapters_consistent in blast)+
  show "mset (manifest_of allChapters) = image_mset metadata (mset allChapters)"
    by (simp add: manifest_of_def mset_js_sort)
qed

lemma save_updates_manifest:
  assumes "force opts \<or> (case ch_number ch of None \<Rightarrow> True | Some n \<Rightarrow> n \<notin> set ex)"
    and "saveChapter en ch (si_slug info) (format opts) w = (Inr saved, w1)"
    and "updateStoryJson en info (allCrawledChapters s @ [ch]) w1 = (None, w2)"
  shows "onChapterCrawled opts info ex en ch s w =
           (None, s\<lparr>savedCount := savedCount s + 1,
                    allCrawledChapters := allCrawledChapters s @ [ch]\<rparr>, w2)"
    and "story_json w2 (sanitizeFileName (si_slug info)) =
           Some (info, manifest_of (allCrawledChapters s @ [ch]))"
proof -
  have nb: "(\<not> force opts \<and> (case ch_number ch of None \<Rightarrow> False | Some n \<Rightarrow> n \<in> set ex)) = False"
    using assms(1) by (auto split: option.splits)
  show "onChapterCrawled opts info ex en ch s w =
           (None, s\<lparr>savedCount := savedCount s + 1,
                    allCrawledChapters := allCrawledChapters s @ [ch]\<rparr>, w2)"
    using assms(2,3) by (simp add: onChapterCrawled_def nb Let_def)
  show "story_json w2 (sanitizeFileName (si_slug info)) =
           Some (info, manifest_of (allCrawledChapters s @ [ch]))"
    using assms(3)
    by (auto simp: updateStoryJson_def io_def Let_def emit_def split: option.splits)
qed

end
